theory Spec2Isabelle
  imports Main "HOL-Library.Word" "HOL-Library.AList"
begin

section \<open>The chat-completion processor of the external-processing filter\<close>

text \<open>
  A shallow embedding of \<^verbatim>\<open>internal/extproc/chatcompletion_processor.go\<close>. The
  processor is a Go struct whose four methods mutate it; here each method takes the
  processor and returns the outcome together with the updated processor. The
  collaborators the file only calls (router, translators, auth handlers, dynamic load
  balancers, JSON and gzip decoding, the CEL evaluator) are parameters. Calls on the
  metric sink are appended to a log held in the processor. Calls on the logger change
  nothing the methods return or keep, and are left out.

  The collaborators and the configuration are present, and the collaborators are total
  functions: a call on one returns a value or an error. The pointers the processor
  itself tests for nil (the translator, the header and body mutations, the
  load-balancing reference of a backend) are options. The four methods are first
  defined on a request-header map and on messages that are not nil; the subsection on
  nil references then adds what the methods do on a nil map and on a nil message.
\<close>

subsection \<open>Basic types\<close>

type_synonym bytes = string
type_synonym uint32 = "32 word"
type_synonym uint64 = "64 word"

text \<open>A Go \<^verbatim>\<open>map[string]string\<close>; reading a missing key gives the empty string.\<close>

type_synonym headers = "string \<rightharpoonup> string"

definition hdr :: "headers \<Rightarrow> string \<Rightarrow> string" where
  "hdr m k = (case m k of None \<Rightarrow> [] | Some v \<Rightarrow> v)"

subsection \<open>Errors\<close>

text \<open>
  An \<^verbatim>\<open>errorString\<close> is what \<^verbatim>\<open>errors.New\<close> and \<^verbatim>\<open>fmt.Errorf\<close> without
  \<^verbatim>\<open>%w\<close> allocate; the number stands for the address of the allocation, which is what
  \<^verbatim>\<open>errors.Is\<close> compares. A \<^verbatim>\<open>wrapError\<close> is what \<^verbatim>\<open>fmt.Errorf\<close> with \<^verbatim>\<open>%w\<close>
  returns: the formatted message and the wrapped error.
\<close>

datatype error = errorString nat string | wrapError string error

fun Error :: "error \<Rightarrow> string" where
  "Error (errorString a s) = s"
| "Error (wrapError msg e) = msg"

fun errors_Is :: "error \<Rightarrow> error \<Rightarrow> bool" where
  "errors_Is (errorString a s) target = (errorString a s = target)"
| "errors_Is (wrapError msg e) target = (wrapError msg e = target \<or> errors_Is e target)"

text \<open>\<^verbatim>\<open>fmt.Errorf(prefix + "%w", err)\<close>.\<close>

definition fmt_Errorf_w :: "string \<Rightarrow> error \<Rightarrow> error" where
  "fmt_Errorf_w prefix e = wrapError (prefix @ Error e) e"

text \<open>
  \<^verbatim>\<open>fmt.Errorf(prefix + "%s", s)\<close>: a fresh \<^verbatim>\<open>errorString\<close>. The processor never
  compares such an error with another one, so its address is immaterial and written 0.
\<close>

definition fmt_Errorf_s :: "string \<Rightarrow> string \<Rightarrow> error" where
  "fmt_Errorf_s prefix s = errorString 0 (prefix @ s)"

text \<open>
  How a method ends: it returns a response with a nil error, it returns a nil response
  with an error, or it panics. \<open>err_is_nil\<close> is the test \<^verbatim>\<open>err == nil\<close> of a
  deferred closure on the named result \<^verbatim>\<open>err\<close>; at every panic of the file the
  result is still nil.
\<close>

datatype 'a result = is_Return: Return 'a | is_Fail: Fail error | is_Panic: Panic string

fun err_is_nil :: "'a result \<Rightarrow> bool" where
  "err_is_nil (Return r) = True"
| "err_is_nil (Fail e) = False"
| "err_is_nil (Panic s) = True"

subsection \<open>Messages of the external-processing protocol\<close>

record HeaderValue =
  Key :: string
  RawValue :: bytes

record HeaderValueOption =
  Header :: HeaderValue

type_synonym HeaderMap = "HeaderValue list"

record HeaderMutation =
  SetHeaders :: "HeaderValueOption list"
  RemoveHeaders :: "string list"

datatype BodyMutation = BodyMutation_Body bytes | BodyMutation_ClearBody bool

record HttpBody =
  Body :: bytes
  EndOfStream :: bool

record CommonResponse =
  HeaderMutation_cr :: "HeaderMutation option"
  BodyMutation_cr :: "BodyMutation option"
  ClearRouteCache :: bool

datatype HeadersResponse = HeadersResponse "CommonResponse option"

datatype BodyResponse = BodyResponse "CommonResponse option"

definition StatusCode_NotFound :: nat where
  "StatusCode_NotFound = 404"

record ImmediateResponse =
  Status :: nat
  Body_ir :: bytes

datatype ProcessingMode_BodySendMode =
  ProcessingMode_NONE | ProcessingMode_STREAMED | ProcessingMode_BUFFERED
  | ProcessingMode_BUFFERED_PARTIAL

record ProcessingMode =
  ResponseBodyMode :: ProcessingMode_BodySendMode

text \<open>
  \<^verbatim>\<open>structpb.Value\<close>. A number is a float64 in Go; the processor only stores
  converted uint32 values, which float64 holds exactly, so the number is kept as a
  natural number. The fields of a struct are a map, kept as an association list with
  one entry per key.
\<close>

datatype Value = Value_NumberValue nat | Value_StructValue "(string \<times> Value) list"

type_synonym Struct = "(string \<times> Value) list"

datatype ProcessingResponse_Response =
  ProcessingResponse_RequestHeaders HeadersResponse
  | ProcessingResponse_RequestBody BodyResponse
  | ProcessingResponse_ResponseHeaders HeadersResponse
  | ProcessingResponse_ResponseBody "BodyResponse option"
  | ProcessingResponse_ImmediateResponse ImmediateResponse

record ProcessingResponse =
  Response :: ProcessingResponse_Response
  ModeOverride :: "ProcessingMode option"
  DynamicMetadata :: "Struct option"

subsection \<open>Configuration and collaborators\<close>

text \<open>
  The names of the API schemas and of the cost kinds are Go strings with named
  constants; a name that is none of the constants is kept as its string.
\<close>

datatype APISchemaName =
  APISchemaOpenAI | APISchemaAWSBedrock | APISchemaAzureOpenAI | APISchemaOther string

record VersionedAPISchema =
  Name_schema :: APISchemaName
  Version :: string

text \<open>
  Modelled from the spec: the spelling of the schema names, declared in package
  \<^verbatim>\<open>filterapi\<close>; it only enters the text of two error messages.
\<close>

fun APISchemaName_String :: "APISchemaName \<Rightarrow> string" where
  "APISchemaName_String APISchemaOpenAI = ''OpenAI''"
| "APISchemaName_String APISchemaAWSBedrock = ''AWSBedrock''"
| "APISchemaName_String APISchemaAzureOpenAI = ''AzureOpenAI''"
| "APISchemaName_String (APISchemaOther s) = s"

definition VersionedAPISchema_String :: "VersionedAPISchema \<Rightarrow> string" where
  "VersionedAPISchema_String out =
     ''{'' @ APISchemaName_String (Name_schema out) @ '' '' @ Version out @ ''}''"

text \<open>
  A backend. \<^verbatim>\<open>DynamicLoadBalancing\<close> is a pointer, nil or the address of a
  \<^verbatim>\<open>filterapi.DynamicLoadBalancing\<close>; the configuration keys its load balancers by
  that address.
\<close>

record Backend =
  Name :: string
  Schema :: VersionedAPISchema
  DynamicLoadBalancing :: "nat option"

record LLMTokenUsage =
  InputTokens :: uint32
  OutputTokens :: uint32
  TotalTokens :: uint32

datatype LLMRequestCostType =
  LLMRequestCostTypeInputToken | LLMRequestCostTypeOutputToken
  | LLMRequestCostTypeTotalToken | LLMRequestCostTypeCEL | LLMRequestCostTypeOther string

text \<open>
  The evaluator of package \<^verbatim>\<open>llmcostcel\<close> is called, not declared, by the
  processor. A compiled program is represented by what evaluating it gives on the five
  variables it may read, and \<open>EvaluateProgram\<close> applies it to them.
\<close>

type_synonym celProgram =
  "string \<Rightarrow> string \<Rightarrow> uint32 \<Rightarrow> uint32 \<Rightarrow> uint32 \<Rightarrow> error + uint64"

definition EvaluateProgram ::
  "celProgram \<Rightarrow> string \<Rightarrow> string \<Rightarrow> uint32 \<Rightarrow> uint32 \<Rightarrow> uint32 \<Rightarrow> error + uint64" where
  "EvaluateProgram prog modelName backend inputTokens outputTokens totalTokens =
     prog modelName backend inputTokens outputTokens totalTokens"

record processorConfigRequestCost =
  MetadataKey :: string
  Type :: LLMRequestCostType
  celProg :: celProgram

record ChatCompletionRequest =
  Model :: string
  Stream :: bool
  Rest :: bytes

datatype Reader = bytes_NewReader bytes | gzip_Reader bytes

text \<open>
  A translator is a stateful object behind an interface: its state and its three
  methods, each returning the state it leaves behind.
\<close>

record 'ts Translator =
  tstate :: 'ts
  RequestBody ::
    "'ts \<Rightarrow> ChatCompletionRequest
      \<Rightarrow> (error + HeaderMutation option \<times> BodyMutation option) \<times> 'ts"
  ResponseHeaders :: "'ts \<Rightarrow> headers \<Rightarrow> (error + HeaderMutation option) \<times> 'ts"
  ResponseBody ::
    "'ts \<Rightarrow> headers \<Rightarrow> Reader \<Rightarrow> bool
      \<Rightarrow> (error + HeaderMutation option \<times> BodyMutation option \<times> LLMTokenUsage) \<times> 'ts"

text \<open>
  \<^verbatim>\<open>Do\<close> of a backend auth handler: it may change the request headers and the two
  mutations it is handed, and returns an error or nil.
\<close>

type_synonym AuthHandler =
  "headers \<Rightarrow> HeaderMutation \<Rightarrow> BodyMutation option
    \<Rightarrow> error option \<times> headers \<times> HeaderMutation \<times> BodyMutation option"

text \<open>\<^verbatim>\<open>SelectChatCompletionsEndpoint\<close> of a dynamic load balancer, for a model name.\<close>

type_synonym DynamicLoadBalancer =
  "string \<Rightarrow> error + Backend \<times> HeaderValueOption list"

record processorConfig =
  schema :: VersionedAPISchema
  router :: "headers \<Rightarrow> error + Backend"
  modelNameHeaderKey :: string
  selectedBackendHeaderKey :: string
  backendAuthHandlers :: "string \<rightharpoonup> AuthHandler"
  dynamicLoadBalancers :: "nat \<rightharpoonup> DynamicLoadBalancer"
  requestCosts :: "processorConfigRequestCost list"
  metadataNamespace :: string

text \<open>Package-level functions and values the file uses and does not declare.\<close>

record 'ts externals =
  json_Unmarshal :: "bytes \<Rightarrow> error + ChatCompletionRequest"
  gzip_NewReader :: "bytes \<Rightarrow> error + Reader"
  headersToMap :: "HeaderMap \<Rightarrow> headers"
  ErrNoMatchingRule :: error
  NewChatCompletionOpenAIToOpenAITranslator :: "'ts Translator"
  NewChatCompletionOpenAIToAWSBedrockTranslator :: "'ts Translator"
  NewChatCompletionOpenAIToAzureOpenAITranslator :: "string \<Rightarrow> 'ts Translator"

text \<open>The calls a processor makes on its metric sink, in order.\<close>

datatype metric_call =
  StartRequest headers
  | SetModel string
  | SetBackend Backend
  | RecordRequestCompletion bool
  | RecordTokenUsage uint32 uint32 uint32
  | RecordTokenLatency uint32

subsection \<open>The processor\<close>

record 'ts chatCompletionProcessor =
  config :: processorConfig
  requestHeaders :: headers
  responseHeaders :: headers
  responseEncoding :: string
  translator :: "'ts Translator option"
  costs :: LLMTokenUsage
  metrics :: "metric_call list"
  stream :: bool
  dynamicLB :: "nat option"

definition ChatCompletionProcessorFactory ::
  "processorConfig \<Rightarrow> headers \<Rightarrow> error + 'ts chatCompletionProcessor" where
  "ChatCompletionProcessorFactory cfg hs =
     (if Name_schema (schema cfg) \<noteq> APISchemaOpenAI
      then Inl (fmt_Errorf_s ''unsupported API schema: ''
                  (APISchemaName_String (Name_schema (schema cfg))))
      else Inr \<lparr>config = cfg, requestHeaders = hs, responseHeaders = Map.empty,
                responseEncoding = [], translator = None,
                costs = \<lparr>InputTokens = 0, OutputTokens = 0, TotalTokens = 0\<rparr>,
                metrics = [], stream = False, dynamicLB = None\<rparr>)"

definition selectTranslator ::
  "'ts externals \<Rightarrow> VersionedAPISchema \<Rightarrow> 'ts chatCompletionProcessor
    \<Rightarrow> error option \<times> 'ts chatCompletionProcessor" where
  "selectTranslator ext out c =
     (if translator c \<noteq> None then (None, c)
      else (case Name_schema out of
          APISchemaOpenAI \<Rightarrow>
            (None, c\<lparr>translator := Some (NewChatCompletionOpenAIToOpenAITranslator ext)\<rparr>)
        | APISchemaAWSBedrock \<Rightarrow>
            (None, c\<lparr>translator := Some (NewChatCompletionOpenAIToAWSBedrockTranslator ext)\<rparr>)
        | APISchemaAzureOpenAI \<Rightarrow>
            (None, c\<lparr>translator :=
                Some (NewChatCompletionOpenAIToAzureOpenAITranslator ext (Version out))\<rparr>)
        | APISchemaOther s \<Rightarrow>
            (Some (fmt_Errorf_s ''unsupported API schema: backend=''
                     (VersionedAPISchema_String out)), c)))"

definition ProcessRequestHeaders ::
  "'ts chatCompletionProcessor
    \<Rightarrow> ProcessingResponse result \<times> 'ts chatCompletionProcessor" where
  "ProcessRequestHeaders c =
     (Return \<lparr>Response = ProcessingResponse_RequestHeaders (HeadersResponse None),
              ModeOverride = None, DynamicMetadata = None\<rparr>,
      c\<lparr>metrics := metrics c @ [StartRequest (requestHeaders c)]\<rparr>)"

definition parseOpenAIChatCompletionBody ::
  "'ts externals \<Rightarrow> HttpBody \<Rightarrow> error + string \<times> ChatCompletionRequest" where
  "parseOpenAIChatCompletionBody ext body =
     (case json_Unmarshal ext (Body body) of
        Inl e \<Rightarrow> Inl (fmt_Errorf_w ''failed to unmarshal body: '' e)
      | Inr openAIReq \<Rightarrow> Inr (Model openAIReq, openAIReq))"

text \<open>
  Lines 147 to 189 of \<^verbatim>\<open>ProcessRequestBody\<close>: what follows the choice of the
  backend \<open>b\<close>, of the load balancer's extra headers and of the value of the
  selected-backend header. Calling a method on a nil translator would panic; the case
  is written out and shown unreachable below.
\<close>

definition ProcessRequestBody_selected ::
  "'ts externals \<Rightarrow> string \<Rightarrow> ChatCompletionRequest \<Rightarrow> Backend \<Rightarrow> HeaderValueOption list
    \<Rightarrow> string \<Rightarrow> 'ts chatCompletionProcessor
    \<Rightarrow> ProcessingResponse result \<times> 'ts chatCompletionProcessor" where
  "ProcessRequestBody_selected ext model body b headers selectedBackendHeaderValue c =
     (let c3 = c\<lparr>metrics := metrics c @ [SetBackend b]\<rparr> in
      case selectTranslator ext (Schema b) c3 of
        (Some e, c4) \<Rightarrow> (Fail (fmt_Errorf_w ''failed to select translator: '' e), c4)
      | (None, c4) \<Rightarrow>
         (case translator c4 of
            None \<Rightarrow> (Panic ''invalid memory address or nil pointer dereference'', c4)
          | Some tr \<Rightarrow>
             (case RequestBody tr (tstate tr) body of
                (Inl e, s) \<Rightarrow>
                  (Fail (fmt_Errorf_w ''failed to transform request: '' e),
                   c4\<lparr>translator := Some (tr\<lparr>tstate := s\<rparr>)\<rparr>)
              | (Inr (headerMutation, bodyMutation), s) \<Rightarrow>
                 (let c5 = c4\<lparr>translator := Some (tr\<lparr>tstate := s\<rparr>)\<rparr>;
                      hm0 = (case headerMutation of
                               None \<Rightarrow> \<lparr>SetHeaders = [], RemoveHeaders = []\<rparr>
                             | Some h \<Rightarrow> h);
                      hm1 = hm0\<lparr>SetHeaders := SetHeaders hm0 @
                              [\<lparr>Header = \<lparr>Key = modelNameHeaderKey (config c5),
                                           RawValue = model\<rparr>\<rparr>,
                               \<lparr>Header = \<lparr>Key = selectedBackendHeaderKey (config c5),
                                           RawValue = selectedBackendHeaderValue\<rparr>\<rparr>]\<rparr>;
                      hm2 = hm1\<lparr>SetHeaders := SetHeaders hm1 @ headers\<rparr>
                  in case backendAuthHandlers (config c5) (Name b) of
                       None \<Rightarrow>
                         (Return \<lparr>Response = ProcessingResponse_RequestBody (BodyResponse (Some
                                    \<lparr>HeaderMutation_cr = Some hm2, BodyMutation_cr = bodyMutation,
                                     ClearRouteCache = True\<rparr>)),
                                  ModeOverride = None, DynamicMetadata = None\<rparr>,
                          c5\<lparr>stream := Stream body\<rparr>)
                     | Some authHandler \<Rightarrow>
                        (case authHandler (requestHeaders c5) hm2 bodyMutation of
                           (Some e, rh, hm3, bm3) \<Rightarrow>
                             (Fail (fmt_Errorf_w ''failed to do auth request: '' e),
                              c5\<lparr>requestHeaders := rh\<rparr>)
                         | (None, rh, hm3, bm3) \<Rightarrow>
                             (Return \<lparr>Response = ProcessingResponse_RequestBody (BodyResponse (Some
                                        \<lparr>HeaderMutation_cr = Some hm3, BodyMutation_cr = bm3,
                                         ClearRouteCache = True\<rparr>)),
                                      ModeOverride = None, DynamicMetadata = None\<rparr>,
                              c5\<lparr>requestHeaders := rh, stream := Stream body\<rparr>))))))"

text \<open>
  The body of \<^verbatim>\<open>ProcessRequestBody\<close>, lines 103 to 145, then the part above, on a
  message and a request-header map that are not nil. The write of line 110 into a nil
  map is in \<open>ProcessRequestBody_nil\<close> below.
\<close>

definition ProcessRequestBody_body ::
  "'ts externals \<Rightarrow> HttpBody \<Rightarrow> 'ts chatCompletionProcessor
    \<Rightarrow> ProcessingResponse result \<times> 'ts chatCompletionProcessor" where
  "ProcessRequestBody_body ext rawBody c =
     (case parseOpenAIChatCompletionBody ext rawBody of
        Inl e \<Rightarrow> (Fail (fmt_Errorf_w ''failed to parse request body: '' e), c)
      | Inr (model, body) \<Rightarrow>
         (let c1 = c\<lparr>metrics := metrics c @ [SetModel model],
                     requestHeaders :=
                       (requestHeaders c)(modelNameHeaderKey (config c) \<mapsto> model)\<rparr>
          in case router (config c1) (requestHeaders c1) of
               Inl e \<Rightarrow>
                 (if errors_Is e (ErrNoMatchingRule ext)
                  then (Return \<lparr>Response = ProcessingResponse_ImmediateResponse
                                   \<lparr>Status = StatusCode_NotFound, Body_ir = Error e\<rparr>,
                                 ModeOverride = None, DynamicMetadata = None\<rparr>,
                        c1\<lparr>metrics := metrics c1 @ [RecordRequestCompletion False]\<rparr>)
                  else (Fail (fmt_Errorf_w ''failed to calculate route: '' e), c1))
             | Inr b \<Rightarrow>
                 (let c2 = c1\<lparr>dynamicLB := DynamicLoadBalancing b\<rparr>
                  in case dynamicLB c2 of
                       None \<Rightarrow> ProcessRequestBody_selected ext model body b [] (Name b) c2
                     | Some p \<Rightarrow>
                        (case dynamicLoadBalancers (config c2) p of
                           None \<Rightarrow> (Panic ''BUG: failed to find dynamic load balancer'', c2)
                         | Some lb \<Rightarrow>
                            (case lb model of
                               Inl e \<Rightarrow>
                                 (Fail (fmt_Errorf_w ''failed to select endpoint: '' e), c2)
                             | Inr (b', headers) \<Rightarrow>
                                 ProcessRequestBody_selected ext model body b' headers
                                   ''original_destination_cluster'' c2)))))"

text \<open>
  The deferred closure of a method that records a failed completion when the method
  returns an error.
\<close>

definition defer_record_failure ::
  "ProcessingResponse result \<times> 'ts chatCompletionProcessor
    \<Rightarrow> ProcessingResponse result \<times> 'ts chatCompletionProcessor" where
  "defer_record_failure rc =
     (case rc of
        (Fail e, c) \<Rightarrow> (Fail e, c\<lparr>metrics := metrics c @ [RecordRequestCompletion False]\<rparr>)
      | (r, c) \<Rightarrow> (r, c))"

definition ProcessRequestBody ::
  "'ts externals \<Rightarrow> HttpBody \<Rightarrow> 'ts chatCompletionProcessor
    \<Rightarrow> ProcessingResponse result \<times> 'ts chatCompletionProcessor" where
  "ProcessRequestBody ext rawBody c =
     defer_record_failure (ProcessRequestBody_body ext rawBody c)"

definition ProcessResponseHeaders_body ::
  "'ts externals \<Rightarrow> HeaderMap \<Rightarrow> 'ts chatCompletionProcessor
    \<Rightarrow> ProcessingResponse result \<times> 'ts chatCompletionProcessor" where
  "ProcessResponseHeaders_body ext headers c =
     (let c1 = c\<lparr>responseHeaders := headersToMap ext headers\<rparr>;
          enc = hdr (responseHeaders c1) ''content-encoding'';
          c2 = (if enc \<noteq> [] then c1\<lparr>responseEncoding := enc\<rparr> else c1)
      in case translator c2 of
           None \<Rightarrow>
             (Return \<lparr>Response = ProcessingResponse_ResponseHeaders (HeadersResponse None),
                      ModeOverride = None, DynamicMetadata = None\<rparr>, c2)
         | Some tr \<Rightarrow>
            (case ResponseHeaders tr (tstate tr) (responseHeaders c2) of
               (Inl e, s) \<Rightarrow>
                 (Fail (fmt_Errorf_w ''failed to transform response headers: '' e),
                  c2\<lparr>translator := Some (tr\<lparr>tstate := s\<rparr>)\<rparr>)
             | (Inr headerMutation, s) \<Rightarrow>
                 (let mode = (if stream c2 \<and> hdr (responseHeaders c2) '':status'' = ''200''
                              then Some \<lparr>ResponseBodyMode = ProcessingMode_STREAMED\<rparr>
                              else None)
                  in (Return \<lparr>Response = ProcessingResponse_ResponseHeaders (HeadersResponse (Some
                                 \<lparr>HeaderMutation_cr = headerMutation, BodyMutation_cr = None,
                                  ClearRouteCache = False\<rparr>)),
                               ModeOverride = mode, DynamicMetadata = None\<rparr>,
                      c2\<lparr>translator := Some (tr\<lparr>tstate := s\<rparr>)\<rparr>))))"

definition ProcessResponseHeaders ::
  "'ts externals \<Rightarrow> HeaderMap \<Rightarrow> 'ts chatCompletionProcessor
    \<Rightarrow> ProcessingResponse result \<times> 'ts chatCompletionProcessor" where
  "ProcessResponseHeaders ext headers c =
     defer_record_failure (ProcessResponseHeaders_body ext headers c)"

subsection \<open>Cost metadata\<close>

text \<open>The switch on the kind of one cost rule, lines 303 to 325.\<close>

definition requestCost_cost ::
  "'ts chatCompletionProcessor \<Rightarrow> processorConfigRequestCost \<Rightarrow> error + uint32" where
  "requestCost_cost c rc =
     (case Type rc of
        LLMRequestCostTypeInputToken \<Rightarrow> Inr (InputTokens (costs c))
      | LLMRequestCostTypeOutputToken \<Rightarrow> Inr (OutputTokens (costs c))
      | LLMRequestCostTypeTotalToken \<Rightarrow> Inr (TotalTokens (costs c))
      | LLMRequestCostTypeCEL \<Rightarrow>
          (case EvaluateProgram (celProg rc)
                  (hdr (requestHeaders c) (modelNameHeaderKey (config c)))
                  (hdr (requestHeaders c) (selectedBackendHeaderKey (config c)))
                  (InputTokens (costs c)) (OutputTokens (costs c)) (TotalTokens (costs c)) of
             Inl e \<Rightarrow> Inl (fmt_Errorf_w ''failed to evaluate CEL expression: '' e)
           | Inr costU64 \<Rightarrow> Inr (ucast costU64))
      | LLMRequestCostTypeOther s \<Rightarrow> Inl (fmt_Errorf_s ''unknown request cost kind: '' s))"

text \<open>The loop over the cost rules, filling the metadata map.\<close>

fun requestCosts_loop ::
  "'ts chatCompletionProcessor \<Rightarrow> processorConfigRequestCost list \<Rightarrow> Struct
    \<Rightarrow> error + Struct" where
  "requestCosts_loop c [] metadata = Inr metadata"
| "requestCosts_loop c (rc # rcs) metadata =
     (case requestCost_cost c rc of
        Inl e \<Rightarrow> Inl e
      | Inr cost \<Rightarrow>
          requestCosts_loop c rcs
            (AList.update (MetadataKey rc) (Value_NumberValue (unat cost)) metadata))"

definition maybeBuildDynamicMetadata ::
  "'ts chatCompletionProcessor \<Rightarrow> error + Struct option" where
  "maybeBuildDynamicMetadata c =
     (case requestCosts_loop c (requestCosts (config c)) [] of
        Inl e \<Rightarrow> Inl e
      | Inr metadata \<Rightarrow>
          (if length metadata = 0 then Inr None
           else Inr (Some [(metadataNamespace (config c), Value_StructValue metadata)])))"

subsection \<open>Response bodies\<close>

definition add_usage :: "LLMTokenUsage \<Rightarrow> LLMTokenUsage \<Rightarrow> LLMTokenUsage" where
  "add_usage a d =
     \<lparr>InputTokens = InputTokens a + InputTokens d,
      OutputTokens = OutputTokens a + OutputTokens d,
      TotalTokens = TotalTokens a + TotalTokens d\<rparr>"

definition ProcessResponseBody_body ::
  "'ts externals \<Rightarrow> HttpBody \<Rightarrow> 'ts chatCompletionProcessor
    \<Rightarrow> ProcessingResponse result \<times> 'ts chatCompletionProcessor" where
  "ProcessResponseBody_body ext body c =
     (case (if responseEncoding c = ''gzip'' then gzip_NewReader ext (Body body)
            else Inr (bytes_NewReader (Body body))) of
        Inl e \<Rightarrow> (Fail (fmt_Errorf_w ''failed to decode gzip: '' e), c)
      | Inr br \<Rightarrow>
         (case translator c of
            None \<Rightarrow>
              (Return \<lparr>Response = ProcessingResponse_ResponseBody None,
                       ModeOverride = None, DynamicMetadata = None\<rparr>, c)
          | Some tr \<Rightarrow>
             (case ResponseBody tr (tstate tr) (responseHeaders c) br (EndOfStream body) of
                (Inl e, s) \<Rightarrow>
                  (Fail (fmt_Errorf_w ''failed to transform response: '' e),
                   c\<lparr>translator := Some (tr\<lparr>tstate := s\<rparr>)\<rparr>)
              | (Inr (headerMutation, bodyMutation, tokenUsage), s) \<Rightarrow>
                 (let resp = \<lparr>Response = ProcessingResponse_ResponseBody (Some (BodyResponse (Some
                                 \<lparr>HeaderMutation_cr = headerMutation,
                                  BodyMutation_cr = bodyMutation, ClearRouteCache = False\<rparr>))),
                              ModeOverride = None, DynamicMetadata = None\<rparr>;
                      c1 = c\<lparr>translator := Some (tr\<lparr>tstate := s\<rparr>),
                             costs := add_usage (costs c) tokenUsage,
                             metrics := metrics c @
                               [RecordTokenUsage (InputTokens tokenUsage)
                                  (OutputTokens tokenUsage) (TotalTokens tokenUsage)] @
                               (if stream c then [RecordTokenLatency (OutputTokens tokenUsage)]
                                else [])\<rparr>
                  in if EndOfStream body \<and> length (requestCosts (config c1)) > 0
                     then (case maybeBuildDynamicMetadata c1 of
                             Inl e \<Rightarrow>
                               (Fail (fmt_Errorf_w ''failed to build dynamic metadata: '' e), c1)
                           | Inr md \<Rightarrow> (Return (resp\<lparr>DynamicMetadata := md\<rparr>), c1))
                     else (Return resp, c1)))))"

text \<open>
  The deferred closure of \<^verbatim>\<open>ProcessResponseBody\<close> records a completion on every
  return, successful exactly when the returned error is nil.
\<close>

definition ProcessResponseBody ::
  "'ts externals \<Rightarrow> HttpBody \<Rightarrow> 'ts chatCompletionProcessor
    \<Rightarrow> ProcessingResponse result \<times> 'ts chatCompletionProcessor" where
  "ProcessResponseBody ext body c =
     (case ProcessResponseBody_body ext body c of
        (r, c') \<Rightarrow>
          (r, c'\<lparr>metrics := metrics c' @ [RecordRequestCompletion (err_is_nil r)]\<rparr>))"

subsection \<open>Nil references\<close>

text \<open>
  In Go the message of an event is a pointer and the request-header map of the
  processor is a reference; both can be nil, and the factory stores the map it is
  handed unchecked. A nil map reads as the empty map, so a processor with a nil map has
  the empty map in \<open>requestHeaders\<close>, and \<open>nilHeaders\<close> tells that it is nil.
  Writing into a nil map panics, and so does reading the field of a nil message.

  \<^verbatim>\<open>ProcessRequestBody\<close> reads the body of its message first (line 103, through
  \<^verbatim>\<open>parseOpenAIChatCompletionBody\<close>). When the body parses it records the model and
  then writes the model into the request-header map (line 110). At both panics the
  named result \<^verbatim>\<open>err\<close> is nil, so the deferred closure records nothing.
\<close>

definition ProcessRequestBody_nil ::
  "'ts externals \<Rightarrow> HttpBody option \<Rightarrow> bool \<Rightarrow> 'ts chatCompletionProcessor
    \<Rightarrow> ProcessingResponse result \<times> 'ts chatCompletionProcessor" where
  "ProcessRequestBody_nil ext rawBody nilHeaders c =
     (case rawBody of
        None \<Rightarrow> (Panic ''invalid memory address or nil pointer dereference'', c)
      | Some rb \<Rightarrow>
         (case parseOpenAIChatCompletionBody ext rb of
            Inl e \<Rightarrow> ProcessRequestBody ext rb c
          | Inr (model, body) \<Rightarrow>
             (if nilHeaders
              then (Panic ''assignment to entry in nil map'',
                    c\<lparr>metrics := metrics c @ [SetModel model]\<rparr>)
              else ProcessRequestBody ext rb c)))"

text \<open>
  \<^verbatim>\<open>ProcessResponseBody\<close> reads the body of its message in both branches of the switch
  on the response encoding (lines 236 to 244), before anything else; its deferred
  closure then records a completion with \<^verbatim>\<open>err == nil\<close>. It only reads the
  request-header map. \<^verbatim>\<open>ProcessRequestHeaders\<close> ignores its message and hands the map
  to the metric sink; \<^verbatim>\<open>ProcessResponseHeaders\<close> hands its message to
  \<^verbatim>\<open>headersToMap\<close>: both are as defined above.
\<close>

definition ProcessResponseBody_nil ::
  "'ts externals \<Rightarrow> HttpBody option \<Rightarrow> 'ts chatCompletionProcessor
    \<Rightarrow> ProcessingResponse result \<times> 'ts chatCompletionProcessor" where
  "ProcessResponseBody_nil ext body c =
     (case body of
        None \<Rightarrow>
          (Panic ''invalid memory address or nil pointer dereference'',
           c\<lparr>metrics := metrics c @ [RecordRequestCompletion True]\<rparr>)
      | Some b \<Rightarrow> ProcessResponseBody ext b c)"

subsection \<open>A stream of response-body events\<close>

text \<open>
  The server calls \<^verbatim>\<open>ProcessResponseBody\<close> once for each response-body event of a
  stream, in arrival order, on the same processor.
\<close>

fun ProcessResponseBody_stream ::
  "'ts externals \<Rightarrow> HttpBody list \<Rightarrow> 'ts chatCompletionProcessor
    \<Rightarrow> ProcessingResponse result list \<times> 'ts chatCompletionProcessor" where
  "ProcessResponseBody_stream ext [] c = ([], c)"
| "ProcessResponseBody_stream ext (b # bs) c =
     (case ProcessResponseBody ext b c of
        (r, c') \<Rightarrow>
          (case ProcessResponseBody_stream ext bs c' of (rs, c'') \<Rightarrow> (r # rs, c'')))"

text \<open>The success flags of the completions recorded in a metric log, in order.\<close>

fun completions :: "metric_call list \<Rightarrow> bool list" where
  "completions [] = []"
| "completions (RecordRequestCompletion ok # ms) = ok # completions ms"
| "completions (m # ms) = completions ms"

text \<open>
  The token-usage delta the translator returns for one response-body event, if the
  event reaches the translator and the translation succeeds; and the deltas of a
  stream of events, in order.
\<close>

definition usage_delta ::
  "'ts externals \<Rightarrow> HttpBody \<Rightarrow> 'ts chatCompletionProcessor \<Rightarrow> LLMTokenUsage option" where
  "usage_delta ext body c =
     (case (if responseEncoding c = ''gzip'' then gzip_NewReader ext (Body body)
            else Inr (bytes_NewReader (Body body))) of
        Inl e \<Rightarrow> None
      | Inr br \<Rightarrow>
         (case translator c of
            None \<Rightarrow> None
          | Some tr \<Rightarrow>
             (case fst (ResponseBody tr (tstate tr) (responseHeaders c) br (EndOfStream body)) of
                Inl e \<Rightarrow> None
              | Inr (headerMutation, bodyMutation, tokenUsage) \<Rightarrow> Some tokenUsage)))"

fun stream_deltas ::
  "'ts externals \<Rightarrow> HttpBody list \<Rightarrow> 'ts chatCompletionProcessor \<Rightarrow> LLMTokenUsage list" where
  "stream_deltas ext [] c = []"
| "stream_deltas ext (b # bs) c =
     (case usage_delta ext b c of None \<Rightarrow> [] | Some d \<Rightarrow> [d])
       @ stream_deltas ext bs (snd (ProcessResponseBody ext b c))"

text \<open>
  The cost fields as the specification words them: a map from each cost rule's metadata
  key to its value. Where two rules share a key, the later rule is the one whose value
  stays in a Go map.
\<close>

fun last_rule ::
  "processorConfigRequestCost list \<Rightarrow> string \<Rightarrow> processorConfigRequestCost option" where
  "last_rule [] k = None"
| "last_rule (rc # rcs) k =
     (case last_rule rcs k of
        Some r \<Rightarrow> Some r
      | None \<Rightarrow> (if MetadataKey rc = k then Some rc else None))"

definition cost_fields ::
  "'ts chatCompletionProcessor \<Rightarrow> processorConfigRequestCost list \<Rightarrow> string \<rightharpoonup> Value" where
  "cost_fields c rcs k =
     (case last_rule rcs k of
        None \<Rightarrow> None
      | Some rc \<Rightarrow>
         (case requestCost_cost c rc of
            Inl e \<Rightarrow> None
          | Inr cost \<Rightarrow> Some (Value_NumberValue (unat cost))))"

subsection \<open>A concrete configuration\<close>

text \<open>
  A small configuration on which the theorems below are instantiated: requests for
  \<^verbatim>\<open>gpt-4o-mini\<close> go to the backend \<^verbatim>\<open>openai\<close>, requests for \<^verbatim>\<open>llama3-70b\<close>
  to a backend with dynamic load balancing, and no other model matches a rule. The
  stand-in for the JSON decoder reads the stream flag from the first byte and the
  model name from the rest.
\<close>

definition ex_translator :: "unit Translator" where
  "ex_translator =
     \<lparr>tstate = (),
      RequestBody = (\<lambda>s r. (Inr (None, None), s)),
      ResponseHeaders = (\<lambda>s h. (Inr None, s)),
      ResponseBody = (\<lambda>s h br eos.
         (Inr (None, None, \<lparr>InputTokens = 10, OutputTokens = 3, TotalTokens = 13\<rparr>), s))\<rparr>"

definition ex_ext :: "unit externals" where
  "ex_ext =
     \<lparr>json_Unmarshal = (\<lambda>b. case b of
          [] \<Rightarrow> Inl (errorString 2 ''unexpected end of JSON input'')
        | ch # m \<Rightarrow> Inr \<lparr>Model = m, Stream = (ch = CHR ''s''), Rest = []\<rparr>),
      gzip_NewReader = (\<lambda>b. Inr (gzip_Reader b)),
      headersToMap = (\<lambda>hs. map_of (map (\<lambda>h. (Key h, RawValue h)) hs)),
      ErrNoMatchingRule = errorString 1 ''no matching rule found'',
      NewChatCompletionOpenAIToOpenAITranslator = ex_translator,
      NewChatCompletionOpenAIToAWSBedrockTranslator = ex_translator,
      NewChatCompletionOpenAIToAzureOpenAITranslator = (\<lambda>v. ex_translator)\<rparr>"

definition ex_input_rule :: processorConfigRequestCost where
  "ex_input_rule =
     \<lparr>MetadataKey = ''input'', Type = LLMRequestCostTypeInputToken,
      celProg = (\<lambda>m b i o' t. Inr 0)\<rparr>"

definition ex_cel_rule :: processorConfigRequestCost where
  "ex_cel_rule =
     \<lparr>MetadataKey = ''c'', Type = LLMRequestCostTypeCEL,
      celProg = (\<lambda>m b i o' t. Inr (ucast i * 2 + ucast o'))\<rparr>"

definition ex_costs :: "processorConfigRequestCost list" where
  "ex_costs = [ex_input_rule, ex_cel_rule]"

definition ex_config :: processorConfig where
  "ex_config =
     \<lparr>schema = \<lparr>Name_schema = APISchemaOpenAI, Version = ''v1''\<rparr>,
      router = (\<lambda>h.
         if h ''x-ai-eg-model'' = Some ''gpt-4o-mini''
         then Inr \<lparr>Name = ''openai'',
                   Schema = \<lparr>Name_schema = APISchemaOpenAI, Version = ''v1''\<rparr>,
                   DynamicLoadBalancing = None\<rparr>
         else if h ''x-ai-eg-model'' = Some ''llama3-70b''
         then Inr \<lparr>Name = ''kserve'',
                   Schema = \<lparr>Name_schema = APISchemaOpenAI, Version = ''v1''\<rparr>,
                   DynamicLoadBalancing = Some 7\<rparr>
         else Inl (errorString 1 ''no matching rule found'')),
      modelNameHeaderKey = ''x-ai-eg-model'',
      selectedBackendHeaderKey = ''x-ai-eg-selected-backend'',
      backendAuthHandlers = Map.empty,
      dynamicLoadBalancers = Map.empty,
      requestCosts = ex_costs,
      metadataNamespace = ''io.envoy.ai_gateway''\<rparr>"

definition ex_processor :: "unit chatCompletionProcessor" where
  "ex_processor =
     \<lparr>config = ex_config, requestHeaders = Map.empty, responseHeaders = Map.empty,
      responseEncoding = [], translator = None,
      costs = \<lparr>InputTokens = 0, OutputTokens = 0, TotalTokens = 0\<rparr>,
      metrics = [], stream = False, dynamicLB = None\<rparr>"

text \<open>
  The same processor once a request for \<^verbatim>\<open>gpt-4o-mini\<close> has bound a translator,
  with other cost rules, and two response-body events.
\<close>

definition ex_routed :: "unit chatCompletionProcessor" where
  "ex_routed =
     ex_processor\<lparr>requestHeaders := [''x-ai-eg-model'' \<mapsto> ''gpt-4o-mini''],
                  translator := Some ex_translator\<rparr>"

definition ex_failing_rule :: processorConfigRequestCost where
  "ex_failing_rule =
     \<lparr>MetadataKey = ''c'', Type = LLMRequestCostTypeCEL,
      celProg = (\<lambda>m b i o' t. Inl (errorString 3 ''division by zero''))\<rparr>"

definition ex_overflowing_rule :: processorConfigRequestCost where
  "ex_overflowing_rule =
     \<lparr>MetadataKey = ''c'', Type = LLMRequestCostTypeCEL,
      celProg = (\<lambda>m b i o' t. Inr (ucast i * 429496730))\<rparr>"

definition ex_with_costs ::
  "processorConfigRequestCost list \<Rightarrow> unit chatCompletionProcessor" where
  "ex_with_costs rcs = ex_routed\<lparr>config := ex_config\<lparr>requestCosts := rcs\<rparr>\<rparr>"

definition ex_chunk :: HttpBody where
  "ex_chunk = \<lparr>Body = ''data'', EndOfStream = False\<rparr>"

definition ex_final :: HttpBody where
  "ex_final = \<lparr>Body = ''{}'', EndOfStream = True\<rparr>"

text \<open>
  An auth handler that appends an authorization header, a processor whose configuration
  registers it for the backend \<^verbatim>\<open>openai\<close>, a streaming request for
  \<^verbatim>\<open>gpt-4o-mini\<close>, and the reply that processor gives to it.
\<close>

definition ex_auth :: AuthHandler where
  "ex_auth rh hm bm =
     (None, rh,
      hm\<lparr>SetHeaders := SetHeaders hm @
            [\<lparr>Header = \<lparr>Key = ''authorization'', RawValue = ''Bearer key''\<rparr>\<rparr>]\<rparr>,
      bm)"

definition ex_processor_auth :: "unit chatCompletionProcessor" where
  "ex_processor_auth =
     ex_processor\<lparr>config := ex_config\<lparr>backendAuthHandlers := [''openai'' \<mapsto> ex_auth]\<rparr>\<rparr>"

definition ex_request :: HttpBody where
  "ex_request = \<lparr>Body = ''sgpt-4o-mini'', EndOfStream = True\<rparr>"

definition ex_routed_reply :: ProcessingResponse where
  "ex_routed_reply =
     \<lparr>Response = ProcessingResponse_RequestBody (BodyResponse (Some
        \<lparr>HeaderMutation_cr = Some
           \<lparr>SetHeaders =
              [\<lparr>Header = \<lparr>Key = ''x-ai-eg-model'', RawValue = ''gpt-4o-mini''\<rparr>\<rparr>,
               \<lparr>Header = \<lparr>Key = ''x-ai-eg-selected-backend'', RawValue = ''openai''\<rparr>\<rparr>,
               \<lparr>Header = \<lparr>Key = ''authorization'', RawValue = ''Bearer key''\<rparr>\<rparr>],
            RemoveHeaders = []\<rparr>,
         BodyMutation_cr = None, ClearRouteCache = True\<rparr>)),
      ModeOverride = None, DynamicMetadata = None\<rparr>"

text \<open>A translator that reports \<open>2 ^ 31\<close> input tokens for every response-body event.\<close>

definition ex_huge_translator :: "unit Translator" where
  "ex_huge_translator =
     ex_translator\<lparr>ResponseBody := (\<lambda>s h br eos.
        (Inr (None, None,
           \<lparr>InputTokens = 2147483648, OutputTokens = 0, TotalTokens = 2147483648\<rparr>), s))\<rparr>"

definition ex_huge :: "unit chatCompletionProcessor" where
  "ex_huge = ex_routed\<lparr>translator := Some ex_huge_translator\<rparr>"

text \<open>
  An auth handler that replaces the set-headers it is handed by its own, and a
  processor whose configuration registers it for the backend \<^verbatim>\<open>openai\<close>.
\<close>

definition ex_rewriting_auth :: AuthHandler where
  "ex_rewriting_auth rh hm bm =
     (None, rh,
      hm\<lparr>SetHeaders :=
            [\<lparr>Header = \<lparr>Key = ''authorization'', RawValue = ''Bearer key''\<rparr>\<rparr>]\<rparr>,
      bm)"

definition ex_processor_rewriting :: "unit chatCompletionProcessor" where
  "ex_processor_rewriting =
     ex_processor\<lparr>config :=
        ex_config\<lparr>backendAuthHandlers := [''openai'' \<mapsto> ex_rewriting_auth]\<rparr>\<rparr>"

section \<open>Auxiliary facts\<close>

subsection \<open>Outcomes and the metric log\<close>

lemma defer_record_failure_fst: "fst (defer_record_failure rc) = fst rc"
  by (cases rc; cases "fst rc") (simp_all add: defer_record_failure_def)

lemma err_is_nil_Return: "\<not> is_Panic r \<Longrightarrow> err_is_nil r = is_Return r"
  by (cases r) simp_all

lemma completions_append: "completions (xs @ ys) = completions xs @ completions ys"
  by (induction xs rule: completions.induct) simp_all

subsection \<open>The loop over the cost rules\<close>

lemma last_rule_Some: "last_rule rcs k = Some rc \<Longrightarrow> rc \<in> set rcs \<and> MetadataKey rc = k"
  by (induction rcs) (auto split: option.splits if_splits)

lemma loop_all_succeed:
  "requestCosts_loop c rcs md0 = Inr md \<Longrightarrow> rc \<in> set rcs \<Longrightarrow> \<exists>cost. requestCost_cost c rc = Inr cost"
  by (induction rcs arbitrary: md0) (auto split: sum.splits)

lemma loop_fails:
  "rc \<in> set rcs \<Longrightarrow> requestCost_cost c rc = Inl e \<Longrightarrow> \<exists>e'. requestCosts_loop c rcs md0 = Inl e'"
  by (induction rcs arbitrary: md0) (auto split: sum.splits)

lemma loop_first_failure:
  "\<forall>r \<in> set pre. \<exists>cost. requestCost_cost c r = Inr cost \<Longrightarrow>
     requestCost_cost c rc = Inl e \<Longrightarrow>
     requestCosts_loop c (pre @ rc # post) md0 = Inl e"
proof (induction pre arbitrary: md0)
  case Nil
  then show ?case by simp
next
  case (Cons r pre)
  from Cons.prems(1) obtain cost where "requestCost_cost c r = Inr cost" by auto
  moreover from Cons.prems(1) have "\<forall>r \<in> set pre. \<exists>cost. requestCost_cost c r = Inr cost"
    by simp
  ultimately show ?case
    using Cons.IH [OF _ Cons.prems(2)] by simp
qed

lemma update_not_Nil: "AList.update k v al \<noteq> []"
  by (cases al) simp_all

lemma loop_empty:
  "requestCosts_loop c rcs md0 = Inr md \<Longrightarrow> (md = []) = (rcs = [] \<and> md0 = [])"
proof (induction rcs arbitrary: md0)
  case Nil
  then show ?case by auto
next
  case (Cons rc rcs)
  then show ?case
    by (auto split: sum.splits simp: update_not_Nil)
qed

lemma loop_map_of:
  "requestCosts_loop c rcs md0 = Inr md \<Longrightarrow>
     map_of md k = (case last_rule rcs k of None \<Rightarrow> map_of md0 k | Some rc \<Rightarrow> cost_fields c rcs k)"
proof (induction rcs arbitrary: md0)
  case Nil
  then show ?case by simp
next
  case (Cons rc rcs)
  from Cons.prems obtain cost where
    cost: "requestCost_cost c rc = Inr cost" and
    rest: "requestCosts_loop c rcs
             (AList.update (MetadataKey rc) (Value_NumberValue (unat cost)) md0) = Inr md"
    by (auto split: sum.splits)
  show ?case
    using Cons.IH [OF rest] cost
    by (auto simp: cost_fields_def update_conv' split: option.splits)
qed

lemma maybeBuild_None: "(maybeBuildDynamicMetadata c = Inr None) = (requestCosts (config c) = [])"
proof (cases "requestCosts_loop c (requestCosts (config c)) []")
  case (Inl e)
  then have "requestCosts (config c) \<noteq> []" by auto
  with Inl show ?thesis by (simp add: maybeBuildDynamicMetadata_def)
next
  case (Inr md)
  with loop_empty [OF Inr] show ?thesis by (simp add: maybeBuildDynamicMetadata_def)
qed

lemma maybeBuild_Some:
  assumes "maybeBuildDynamicMetadata c = Inr (Some s)"
  shows "\<exists>inner. s = [(metadataNamespace (config c), Value_StructValue inner)] \<and> inner \<noteq> []
           \<and> map_of inner = cost_fields c (requestCosts (config c))"
proof -
  from assms obtain inner where
    l: "requestCosts_loop c (requestCosts (config c)) [] = Inr inner" and
    s: "s = [(metadataNamespace (config c), Value_StructValue inner)]" and ne: "inner \<noteq> []"
    by (auto simp: maybeBuildDynamicMetadata_def split: sum.splits if_splits)
  have "map_of inner k = cost_fields c (requestCosts (config c)) k" for k
    using loop_map_of [OF l, of k] by (simp add: cost_fields_def split: option.splits)
  then have "map_of inner = cost_fields c (requestCosts (config c))" by (rule ext)
  with s ne show ?thesis by blast
qed

subsection \<open>Completions recorded for response bodies\<close>

lemma ProcessResponseBody_body_completions:
  "completions (metrics (snd (ProcessResponseBody_body ext body c))) = completions (metrics c)"
  by (simp add: ProcessResponseBody_body_def Let_def completions_append
      split: sum.splits option.splits prod.splits)

lemma ProcessResponseBody_body_no_panic:
  "\<not> is_Panic (fst (ProcessResponseBody_body ext body c))"
  by (simp add: ProcessResponseBody_body_def Let_def split: sum.splits option.splits prod.splits)

lemma ProcessResponseBody_fst:
  "fst (ProcessResponseBody ext body c) = fst (ProcessResponseBody_body ext body c)"
  by (simp add: ProcessResponseBody_def split: prod.splits)


lemma ProcessResponseBody_one_completion:
  "completions (metrics (snd (ProcessResponseBody ext body c))) =
     completions (metrics c) @ [is_Return (fst (ProcessResponseBody ext body c))]"
proof -
  obtain r c' where b: "ProcessResponseBody_body ext body c = (r, c')"
    by (cases "ProcessResponseBody_body ext body c")
  have "\<not> is_Panic r"
    using ProcessResponseBody_body_no_panic [of ext body c] b by simp
  moreover have "completions (metrics c') = completions (metrics c)"
    using ProcessResponseBody_body_completions [of ext body c] b by simp
  ultimately show ?thesis
    by (simp add: ProcessResponseBody_def b completions_append err_is_nil_Return)
qed

lemma ProcessResponseBody_stream_completions:
  "completions (metrics (snd (ProcessResponseBody_stream ext bodies c))) =
     completions (metrics c) @ map is_Return (fst (ProcessResponseBody_stream ext bodies c))
   \<and> length (fst (ProcessResponseBody_stream ext bodies c)) = length bodies"
proof (induction bodies arbitrary: c)
  case Nil
  show ?case by simp
next
  case (Cons b bs)
  obtain r c' where s: "ProcessResponseBody ext b c = (r, c')"
    by (cases "ProcessResponseBody ext b c")
  obtain rs c'' where t: "ProcessResponseBody_stream ext bs c' = (rs, c'')"
    by (cases "ProcessResponseBody_stream ext bs c'")
  have one: "completions (metrics c') = completions (metrics c) @ [is_Return r]"
    using ProcessResponseBody_one_completion [of ext b c] s by simp
  from Cons.IH [of c'] t one show ?case
    by (simp add: s)
qed

subsection \<open>Translator selection and panics\<close>

lemma selectTranslator_bound:
  "selectTranslator ext out c = (None, c') \<Longrightarrow> translator c' \<noteq> None"
  by (auto simp: selectTranslator_def split: if_splits APISchemaName.splits)

lemma ProcessRequestBody_selected_no_panic:
  "\<not> is_Panic (fst (ProcessRequestBody_selected ext model body b headers v c))"
proof -
  obtain r c4 where
    s: "selectTranslator ext (Schema b) (c\<lparr>metrics := metrics c @ [SetBackend b]\<rparr>) = (r, c4)"
    by (cases "selectTranslator ext (Schema b) (c\<lparr>metrics := metrics c @ [SetBackend b]\<rparr>)")
  show ?thesis
  proof (cases r)
    case (Some e)
    then show ?thesis by (simp add: ProcessRequestBody_selected_def s)
  next
    case None
    with s have "translator c4 \<noteq> None" by (simp add: selectTranslator_bound)
    then obtain tr where "translator c4 = Some tr" by auto
    with None show ?thesis
      by (simp add: ProcessRequestBody_selected_def s Let_def
          split: prod.splits sum.splits option.splits)
  qed
qed

lemma ProcessRequestBody_panics_iff:
  "is_Panic (fst (ProcessRequestBody ext rawBody c)) =
     (\<exists>model body b p.
        parseOpenAIChatCompletionBody ext rawBody = Inr (model, body)
        \<and> router (config c) ((requestHeaders c)(modelNameHeaderKey (config c) \<mapsto> model)) = Inr b
        \<and> DynamicLoadBalancing b = Some p
        \<and> dynamicLoadBalancers (config c) p = None)"
  by (auto simp: ProcessRequestBody_def defer_record_failure_fst ProcessRequestBody_body_def
      Let_def ProcessRequestBody_selected_no_panic
      split: sum.splits option.splits prod.splits)

subsection \<open>One translated response-body event\<close>

lemma requestCost_cost_cong:
  "config a = config b \<Longrightarrow> requestHeaders a = requestHeaders b \<Longrightarrow> costs a = costs b \<Longrightarrow>
     requestCost_cost a rc = requestCost_cost b rc"
  by (simp add: requestCost_cost_def split: LLMRequestCostType.splits sum.splits)

lemma requestCosts_loop_cong:
  "config a = config b \<Longrightarrow> requestHeaders a = requestHeaders b \<Longrightarrow> costs a = costs b \<Longrightarrow>
     requestCosts_loop a rcs md = requestCosts_loop b rcs md"
  by (induction rcs arbitrary: md)
    (simp_all add: requestCost_cost_cong [of a b] split: sum.splits)

lemma maybeBuild_cong:
  "config a = config b \<Longrightarrow> requestHeaders a = requestHeaders b \<Longrightarrow> costs a = costs b \<Longrightarrow>
     maybeBuildDynamicMetadata a = maybeBuildDynamicMetadata b"
  by (simp add: maybeBuildDynamicMetadata_def requestCosts_loop_cong [of a b] split: sum.splits)

lemma usage_delta_SomeE:
  assumes "usage_delta ext body c = Some tu"
  obtains br tr hm bm s where
    "(if responseEncoding c = ''gzip'' then gzip_NewReader ext (Body body)
      else Inr (bytes_NewReader (Body body))) = Inr br"
    "translator c = Some tr"
    "ResponseBody tr (tstate tr) (responseHeaders c) br (EndOfStream body) = (Inr (hm, bm, tu), s)"
proof -
  from assms obtain br where
    br: "(if responseEncoding c = ''gzip'' then gzip_NewReader ext (Body body)
          else Inr (bytes_NewReader (Body body))) = Inr br"
    by (cases "if responseEncoding c = ''gzip'' then gzip_NewReader ext (Body body)
          else Inr (bytes_NewReader (Body body))") (simp_all add: usage_delta_def)
  from assms br obtain tr where tr: "translator c = Some tr"
    by (cases "translator c") (simp_all add: usage_delta_def)
  obtain r s where rs: "ResponseBody tr (tstate tr) (responseHeaders c) br (EndOfStream body) = (r, s)"
    by (cases "ResponseBody tr (tstate tr) (responseHeaders c) br (EndOfStream body)")
  from assms br tr rs obtain hm bm where "r = Inr (hm, bm, tu)"
    by (cases r) (auto simp: usage_delta_def)
  with br tr rs that show thesis by blast
qed

lemma ProcessResponseBody_translated:
  assumes "usage_delta ext body c = Some tu"
  shows "config (snd (ProcessResponseBody ext body c)) = config c
       \<and> requestHeaders (snd (ProcessResponseBody ext body c)) = requestHeaders c
       \<and> costs (snd (ProcessResponseBody ext body c)) = add_usage (costs c) tu
       \<and> (\<exists>resp. DynamicMetadata resp = None \<and>
            fst (ProcessResponseBody ext body c) =
              (if EndOfStream body \<and> requestCosts (config c) \<noteq> []
               then (case maybeBuildDynamicMetadata (snd (ProcessResponseBody ext body c)) of
                       Inl e \<Rightarrow> Fail (fmt_Errorf_w ''failed to build dynamic metadata: '' e)
                     | Inr md \<Rightarrow> Return (resp\<lparr>DynamicMetadata := md\<rparr>))
               else Return resp))"
proof -
  from assms obtain br tr hm bm s where
    br: "(if responseEncoding c = ''gzip'' then gzip_NewReader ext (Body body)
          else Inr (bytes_NewReader (Body body))) = Inr br" and
    tr: "translator c = Some tr" and
    rb: "ResponseBody tr (tstate tr) (responseHeaders c) br (EndOfStream body) = (Inr (hm, bm, tu), s)"
    by (rule usage_delta_SomeE)
  define c1 where "c1 = c\<lparr>translator := Some (tr\<lparr>tstate := s\<rparr>),
                             costs := add_usage (costs c) tu,
                             metrics := metrics c @
                               [RecordTokenUsage (InputTokens tu) (OutputTokens tu) (TotalTokens tu)] @
                               (if stream c then [RecordTokenLatency (OutputTokens tu)] else [])\<rparr>"
  define resp where "resp = \<lparr>Response = ProcessingResponse_ResponseBody (Some (BodyResponse (Some
                                 \<lparr>HeaderMutation_cr = hm, BodyMutation_cr = bm, ClearRouteCache = False\<rparr>))),
                              ModeOverride = None, DynamicMetadata = None\<rparr>"
  have body: "ProcessResponseBody_body ext body c =
      (if EndOfStream body \<and> requestCosts (config c) \<noteq> []
       then (case maybeBuildDynamicMetadata c1 of
               Inl e \<Rightarrow> (Fail (fmt_Errorf_w ''failed to build dynamic metadata: '' e), c1)
             | Inr md \<Rightarrow> (Return (resp\<lparr>DynamicMetadata := md\<rparr>), c1))
       else (Return resp, c1))"
    by (simp add: ProcessResponseBody_body_def br tr rb c1_def resp_def Let_def
        split: sum.splits)
  have snd_body: "snd (ProcessResponseBody_body ext body c) = c1"
    unfolding body by (simp split: sum.splits)
  obtain r where r: "ProcessResponseBody_body ext body c = (r, c1)"
    using snd_body by (cases "ProcessResponseBody_body ext body c") simp
  have c': "snd (ProcessResponseBody ext body c) =
      c1\<lparr>metrics := metrics c1 @ [RecordRequestCompletion (err_is_nil r)]\<rparr>"
    by (simp add: ProcessResponseBody_def r)
  have f: "fst (ProcessResponseBody ext body c) = fst (ProcessResponseBody_body ext body c)"
    by (simp add: ProcessResponseBody_def r)
  have mb: "maybeBuildDynamicMetadata (snd (ProcessResponseBody ext body c)) =
      maybeBuildDynamicMetadata c1"
    by (rule maybeBuild_cong) (simp_all add: c')
  have "DynamicMetadata resp = None" by (simp add: resp_def)
  moreover have "fst (ProcessResponseBody ext body c) =
      (if EndOfStream body \<and> requestCosts (config c) \<noteq> []
       then (case maybeBuildDynamicMetadata (snd (ProcessResponseBody ext body c)) of
               Inl e \<Rightarrow> Fail (fmt_Errorf_w ''failed to build dynamic metadata: '' e)
             | Inr md \<Rightarrow> Return (resp\<lparr>DynamicMetadata := md\<rparr>))
       else Return resp)"
    unfolding f mb body by (simp split: sum.splits)
  ultimately have "\<exists>resp. DynamicMetadata resp = None \<and>
            fst (ProcessResponseBody ext body c) =
              (if EndOfStream body \<and> requestCosts (config c) \<noteq> []
               then (case maybeBuildDynamicMetadata (snd (ProcessResponseBody ext body c)) of
                       Inl e \<Rightarrow> Fail (fmt_Errorf_w ''failed to build dynamic metadata: '' e)
                     | Inr md \<Rightarrow> Return (resp\<lparr>DynamicMetadata := md\<rparr>))
               else Return resp)"
    by blast
  moreover have "config (snd (ProcessResponseBody ext body c)) = config c"
    "requestHeaders (snd (ProcessResponseBody ext body c)) = requestHeaders c"
    "costs (snd (ProcessResponseBody ext body c)) = add_usage (costs c) tu"
    by (simp_all add: c' c1_def)
  ultimately show ?thesis by blast
qed

subsection \<open>Cost rules on the final event\<close>

lemma maybeBuild_all_succeed:
  "maybeBuildDynamicMetadata c = Inr m \<Longrightarrow> rc \<in> set (requestCosts (config c)) \<Longrightarrow>
     \<exists>cost. requestCost_cost c rc = Inr cost"
  by (auto simp: maybeBuildDynamicMetadata_def split: sum.splits dest: loop_all_succeed)

lemma maybeBuild_fails:
  "rc \<in> set (requestCosts (config c)) \<Longrightarrow> requestCost_cost c rc = Inl e \<Longrightarrow>
     \<exists>e'. maybeBuildDynamicMetadata c = Inl e'"
  using loop_fails [of rc "requestCosts (config c)" c e "[]"]
  by (auto simp: maybeBuildDynamicMetadata_def)

lemma requestCost_cost_CEL:
  "Type rc = LLMRequestCostTypeCEL \<Longrightarrow>
     requestCost_cost c rc =
       (case EvaluateProgram (celProg rc)
               (hdr (requestHeaders c) (modelNameHeaderKey (config c)))
               (hdr (requestHeaders c) (selectedBackendHeaderKey (config c)))
               (InputTokens (costs c)) (OutputTokens (costs c)) (TotalTokens (costs c)) of
          Inl e \<Rightarrow> Inl (fmt_Errorf_w ''failed to evaluate CEL expression: '' e)
        | Inr costU64 \<Rightarrow> Inr (ucast costU64))"
  by (simp add: requestCost_cost_def)

lemma final_event_rule_value:
  assumes ud: "usage_delta ext body c = Some tu"
    and eos: "EndOfStream body"
    and ret: "fst (ProcessResponseBody ext body c) = Return reply"
    and rc: "rc \<in> set (requestCosts (config c))"
  shows "\<exists>cost. requestCost_cost (snd (ProcessResponseBody ext body c)) rc = Inr cost
           \<and> (last_rule (requestCosts (config c)) (MetadataKey rc) = Some rc \<longrightarrow>
                (\<exists>inner. DynamicMetadata reply =
                            Some [(metadataNamespace (config c), Value_StructValue inner)]
                   \<and> map_of inner (MetadataKey rc) = Some (Value_NumberValue (unat cost))))"
proof -
  let ?c' = "snd (ProcessResponseBody ext body c)"
  from rc have ne: "requestCosts (config c) \<noteq> []" by auto
  from ProcessResponseBody_translated [OF ud] eos ne obtain resp where
    cfg: "config ?c' = config c" and
    res: "fst (ProcessResponseBody ext body c) =
            (case maybeBuildDynamicMetadata ?c' of
               Inl e \<Rightarrow> Fail (fmt_Errorf_w ''failed to build dynamic metadata: '' e)
             | Inr md \<Rightarrow> Return (resp\<lparr>DynamicMetadata := md\<rparr>))"
    by auto
  from res ret obtain md where
    md: "maybeBuildDynamicMetadata ?c' = Inr md" and dm: "DynamicMetadata reply = md"
    by (cases "maybeBuildDynamicMetadata ?c'") auto
  from maybeBuild_all_succeed [OF md] rc cfg obtain cost where
    cost: "requestCost_cost ?c' rc = Inr cost"
    by auto
  from md ne cfg maybeBuild_None [of ?c'] obtain s where s: "md = Some s"
    by (cases md) auto
  from maybeBuild_Some [of ?c' s] md s cfg obtain inner where
    inner: "s = [(metadataNamespace (config c), Value_StructValue inner)]"
      "map_of inner = cost_fields ?c' (requestCosts (config c))"
    by auto
  have "last_rule (requestCosts (config c)) (MetadataKey rc) = Some rc \<Longrightarrow>
      map_of inner (MetadataKey rc) = Some (Value_NumberValue (unat cost))"
    by (simp add: inner cost_fields_def cost)
  with cost dm s inner show ?thesis by blast
qed

lemma ex_final_delta:
  "usage_delta ex_ext ex_final (ex_with_costs rcs) =
     Some \<lparr>InputTokens = 10, OutputTokens = 3, TotalTokens = 13\<rparr>"
  by (simp add: usage_delta_def ex_final_def ex_with_costs_def ex_routed_def ex_processor_def
      ex_translator_def)

subsection \<open>Routed requests\<close>

lemma selectTranslator_keeps:
  "selectTranslator ext out c = (r, c') \<Longrightarrow>
     config c' = config c \<and> requestHeaders c' = requestHeaders c"
  by (auto simp: selectTranslator_def split: if_splits APISchemaName.splits)

lemma ProcessRequestBody_selected_ReturnE:
  assumes ret: "fst (ProcessRequestBody_selected ext model body b headers v c) = Return reply"
  obtains hm2 bm cr where
    "\<lparr>Header = \<lparr>Key = modelNameHeaderKey (config c), RawValue = model\<rparr>\<rparr> \<in> set (SetHeaders hm2)"
    "\<lparr>Header = \<lparr>Key = selectedBackendHeaderKey (config c), RawValue = v\<rparr>\<rparr> \<in> set (SetHeaders hm2)"
    "Response reply = ProcessingResponse_RequestBody (BodyResponse (Some cr))"
    "ClearRouteCache cr"
    "(backendAuthHandlers (config c) (Name b) = None \<and> HeaderMutation_cr cr = Some hm2)
     \<or> (\<exists>h. backendAuthHandlers (config c) (Name b) = Some h
           \<and> HeaderMutation_cr cr = Some (fst (snd (snd (h (requestHeaders c) hm2 bm)))))"
    "stream (snd (ProcessRequestBody_selected ext model body b headers v c)) = Stream body"
    "translator (snd (ProcessRequestBody_selected ext model body b headers v c)) \<noteq> None"
proof -
  let ?c3 = "c\<lparr>metrics := metrics c @ [SetBackend b]\<rparr>"
  obtain r c4 where s: "selectTranslator ext (Schema b) ?c3 = (r, c4)"
    by (cases "selectTranslator ext (Schema b) ?c3")
  from selectTranslator_keeps [OF s] have
    cfg: "config c4 = config c" and rh: "requestHeaders c4 = requestHeaders c"
    by simp_all
  from ret s have r: "r = None"
    by (cases r) (simp_all add: ProcessRequestBody_selected_def)
  with s have "translator c4 \<noteq> None" by (simp add: selectTranslator_bound)
  then obtain tr where tr: "translator c4 = Some tr" by auto
  obtain q s' where rb: "RequestBody tr (tstate tr) body = (q, s')"
    by (cases "RequestBody tr (tstate tr) body")
  from ret s r tr rb obtain hmo bmo where q: "q = Inr (hmo, bmo)"
    by (cases q) (auto simp: ProcessRequestBody_selected_def)
  define hm0 where "hm0 = (case hmo of None \<Rightarrow> \<lparr>SetHeaders = [], RemoveHeaders = []\<rparr> | Some h \<Rightarrow> h)"
  define hm2 where "hm2 = hm0\<lparr>SetHeaders := (SetHeaders hm0 @
        [\<lparr>Header = \<lparr>Key = modelNameHeaderKey (config c), RawValue = model\<rparr>\<rparr>,
         \<lparr>Header = \<lparr>Key = selectedBackendHeaderKey (config c), RawValue = v\<rparr>\<rparr>]) @ headers\<rparr>"
  have m1: "\<lparr>Header = \<lparr>Key = modelNameHeaderKey (config c), RawValue = model\<rparr>\<rparr> \<in> set (SetHeaders hm2)"
    and m2: "\<lparr>Header = \<lparr>Key = selectedBackendHeaderKey (config c), RawValue = v\<rparr>\<rparr> \<in> set (SetHeaders hm2)"
    by (simp_all add: hm2_def)
  show thesis
  proof (cases "backendAuthHandlers (config c) (Name b)")
    case None
    have "ProcessRequestBody_selected ext model body b headers v c =
        (Return \<lparr>Response = ProcessingResponse_RequestBody (BodyResponse (Some
                    \<lparr>HeaderMutation_cr = Some hm2, BodyMutation_cr = bmo,
                     ClearRouteCache = True\<rparr>)),
                 ModeOverride = None, DynamicMetadata = None\<rparr>,
         c4\<lparr>translator := Some (tr\<lparr>tstate := s'\<rparr>), stream := Stream body\<rparr>)"
      by (simp add: ProcessRequestBody_selected_def s r tr rb q cfg None hm2_def hm0_def Let_def)
    with ret m1 m2 None that [of hm2 _ bmo] show thesis by auto
  next
    case (Some h)
    obtain eo rh' hm3 bm3 where a: "h (requestHeaders c) hm2 bmo = (eo, rh', hm3, bm3)"
      by (cases "h (requestHeaders c) hm2 bmo") auto
    have sel: "ProcessRequestBody_selected ext model body b headers v c =
        (case eo of
           Some e \<Rightarrow> (Fail (fmt_Errorf_w ''failed to do auth request: '' e),
                      c4\<lparr>translator := Some (tr\<lparr>tstate := s'\<rparr>), requestHeaders := rh'\<rparr>)
         | None \<Rightarrow>
            (Return \<lparr>Response = ProcessingResponse_RequestBody (BodyResponse (Some
                        \<lparr>HeaderMutation_cr = Some hm3, BodyMutation_cr = bm3,
                         ClearRouteCache = True\<rparr>)),
                     ModeOverride = None, DynamicMetadata = None\<rparr>,
             c4\<lparr>translator := Some (tr\<lparr>tstate := s'\<rparr>), requestHeaders := rh',
                stream := Stream body\<rparr>))"
      using a
      by (simp add: ProcessRequestBody_selected_def s r tr rb q cfg rh Some hm2_def hm0_def Let_def
          split: option.splits)
    from ret sel have eo: "eo = None" by (cases eo) simp_all
    have "hm3 = fst (snd (snd (h (requestHeaders c) hm2 bmo)))" by (simp add: a)
    with ret sel eo m1 m2 Some that [of hm2 _ bmo] show thesis by auto
  qed
qed

lemma ProcessRequestBody_routedE:
  assumes parse: "parseOpenAIChatCompletionBody ext rawBody = Inr (model, req)"
    and route: "router (config c) ((requestHeaders c)(modelNameHeaderKey (config c) \<mapsto> model)) = Inr b"
    and ret: "fst (ProcessRequestBody ext rawBody c) = Return reply"
  obtains b' headers c2 where
    "config c2 = config c"
    "ProcessRequestBody ext rawBody c =
       ProcessRequestBody_selected ext model req b' headers
         (if DynamicLoadBalancing b = None then Name b else ''original_destination_cluster'') c2"
proof -
  let ?c1 = "c\<lparr>metrics := metrics c @ [SetModel model],
               requestHeaders := (requestHeaders c)(modelNameHeaderKey (config c) \<mapsto> model)\<rparr>"
  let ?c2 = "?c1\<lparr>dynamicLB := DynamicLoadBalancing b\<rparr>"
  have d: "ProcessRequestBody ext rawBody c = defer_record_failure (ProcessRequestBody_body ext rawBody c)"
    by (simp add: ProcessRequestBody_def)
  have keep: "defer_record_failure rc = rc" if "is_Return (fst rc)"
    for rc :: "ProcessingResponse result \<times> 'a chatCompletionProcessor"
    using that by (cases rc; cases "fst rc") (simp_all add: defer_record_failure_def)
  from ret have "is_Return (fst (ProcessRequestBody_body ext rawBody c))"
    by (simp add: d defer_record_failure_fst)
  then have eq: "ProcessRequestBody ext rawBody c = ProcessRequestBody_body ext rawBody c"
    by (simp add: d keep)
  show thesis
  proof (cases "DynamicLoadBalancing b")
    case None
    have "ProcessRequestBody_body ext rawBody c =
        ProcessRequestBody_selected ext model req b [] (Name b) ?c2"
      by (simp add: ProcessRequestBody_body_def parse route None Let_def)
    with eq None that [of ?c2 b "[]"] show thesis by simp
  next
    case (Some p)
    from ret eq obtain lb where lb: "dynamicLoadBalancers (config c) p = Some lb"
      by (cases "dynamicLoadBalancers (config c) p")
        (simp_all add: ProcessRequestBody_body_def parse route Some Let_def)
    from ret eq lb obtain b' headers where sel: "lb model = Inr (b', headers)"
      by (cases "lb model")
        (auto simp: ProcessRequestBody_body_def parse route Some Let_def)
    have "ProcessRequestBody_body ext rawBody c =
        ProcessRequestBody_selected ext model req b' headers ''original_destination_cluster'' ?c2"
      by (simp add: ProcessRequestBody_body_def parse route Some lb sel Let_def)
    with eq Some that [of ?c2 b' headers] show thesis by simp
  qed
qed

lemma ProcessRequestBody_stream_flag:
  assumes parse: "parseOpenAIChatCompletionBody ext rawBody = Inr (model, req)"
    and route: "router (config c) ((requestHeaders c)(modelNameHeaderKey (config c) \<mapsto> model)) = Inr b"
    and ret: "fst (ProcessRequestBody ext rawBody c) = Return reply"
  shows "stream (snd (ProcessRequestBody ext rawBody c)) = Stream req
       \<and> translator (snd (ProcessRequestBody ext rawBody c)) \<noteq> None"
proof -
  from ProcessRequestBody_routedE [OF parse route ret] obtain b' headers c2 v where
    eq: "ProcessRequestBody ext rawBody c = ProcessRequestBody_selected ext model req b' headers v c2"
    by metis
  with ret have "fst (ProcessRequestBody_selected ext model req b' headers v c2) = Return reply"
    by simp
  then show ?thesis
    unfolding eq by (rule ProcessRequestBody_selected_ReturnE) simp
qed

subsection \<open>Token counts over a stream\<close>

lemma ProcessResponseBody_untranslated:
  assumes "usage_delta ext body c = None"
  shows "costs (snd (ProcessResponseBody ext body c)) = costs c"
proof -
  let ?d = "if responseEncoding c = ''gzip'' then gzip_NewReader ext (Body body)
            else Inr (bytes_NewReader (Body body))"
  have s: "costs (snd (ProcessResponseBody ext body c)) =
      costs (snd (ProcessResponseBody_body ext body c))"
    by (simp add: ProcessResponseBody_def split: prod.splits)
  show ?thesis
  proof (cases ?d)
    case (Inl e)
    then show ?thesis by (simp add: s ProcessResponseBody_body_def)
  next
    case (Inr br)
    show ?thesis
    proof (cases "translator c")
      case None
      with Inr show ?thesis by (simp add: s ProcessResponseBody_body_def)
    next
      case (Some tr)
      obtain q s' where rb:
        "ResponseBody tr (tstate tr) (responseHeaders c) br (EndOfStream body) = (q, s')"
        by (cases "ResponseBody tr (tstate tr) (responseHeaders c) br (EndOfStream body)")
      from assms Inr Some rb obtain e where "q = Inl e"
        by (cases q) (auto simp: usage_delta_def)
      with Inr Some rb show ?thesis by (simp add: s ProcessResponseBody_body_def)
    qed
  qed
qed

lemma ProcessResponseBody_untranslated_reply:
  assumes "usage_delta ext body c = None"
    and "fst (ProcessResponseBody ext body c) = Return reply"
  shows "DynamicMetadata reply = None"
proof -
  let ?d = "if responseEncoding c = ''gzip'' then gzip_NewReader ext (Body body)
            else Inr (bytes_NewReader (Body body))"
  from assms(2) have r: "fst (ProcessResponseBody_body ext body c) = Return reply"
    by (simp add: ProcessResponseBody_fst)
  show ?thesis
  proof (cases ?d)
    case (Inl e)
    with r show ?thesis by (simp add: ProcessResponseBody_body_def)
  next
    case (Inr br)
    show ?thesis
    proof (cases "translator c")
      case None
      with Inr r show ?thesis by (auto simp: ProcessResponseBody_body_def)
    next
      case (Some tr)
      obtain q s' where rb:
        "ResponseBody tr (tstate tr) (responseHeaders c) br (EndOfStream body) = (q, s')"
        by (cases "ResponseBody tr (tstate tr) (responseHeaders c) br (EndOfStream body)")
      from assms(1) Inr Some rb obtain e where "q = Inl e"
        by (cases q) (auto simp: usage_delta_def)
      with Inr Some rb r show ?thesis by (simp add: ProcessResponseBody_body_def)
    qed
  qed
qed

lemma ProcessResponseBody_costs:
  "costs (snd (ProcessResponseBody ext body c)) =
     (case usage_delta ext body c of None \<Rightarrow> costs c | Some d \<Rightarrow> add_usage (costs c) d)"
proof (cases "usage_delta ext body c")
  case None
  then show ?thesis by (simp add: ProcessResponseBody_untranslated)
next
  case (Some d)
  with ProcessResponseBody_translated [OF Some] show ?thesis by simp
qed

lemma ProcessResponseBody_stream_costs:
  "costs (snd (ProcessResponseBody_stream ext bodies c)) =
     foldl add_usage (costs c) (stream_deltas ext bodies c)"
proof (induction bodies arbitrary: c)
  case Nil
  show ?case by simp
next
  case (Cons b bs)
  obtain r c' where s: "ProcessResponseBody ext b c = (r, c')"
    by (cases "ProcessResponseBody ext b c")
  have c': "costs c' =
      (case usage_delta ext b c of None \<Rightarrow> costs c | Some d \<Rightarrow> add_usage (costs c) d)"
    using ProcessResponseBody_costs [of ext b c] s by simp
  obtain rs c'' where t: "ProcessResponseBody_stream ext bs c' = (rs, c'')"
    by (cases "ProcessResponseBody_stream ext bs c'")
  from Cons.IH [of c'] t have "costs c'' = foldl add_usage (costs c') (stream_deltas ext bs c')"
    by simp
  with c' show ?case
    by (simp add: s t split: option.splits)
qed

lemma foldl_add_usage_field:
  assumes "f = InputTokens \<or> f = OutputTokens \<or> f = TotalTokens"
  shows "f (foldl add_usage a ds) = f a + sum_list (map f ds)"
  using assms
  by (induction ds arbitrary: a) (auto simp: add_usage_def add.assoc)

lemma unat_sum_list:
  "unat (sum_list (ws :: uint32 list)) = sum_list (map unat ws) mod 2 ^ 32"
proof (induction ws)
  case Nil
  show ?case by simp
next
  case (Cons w ws)
  have "unat (w + sum_list ws) = (unat w + unat (sum_list ws)) mod 2 ^ 32"
    by (simp add: unat_word_ariths)
  also have "\<dots> = (unat w + sum_list (map unat ws) mod 2 ^ 32) mod 2 ^ 32"
    by (simp add: Cons.IH)
  also have "\<dots> = (unat w + sum_list (map unat ws)) mod 2 ^ 32"
    by (simp add: mod_add_right_eq)
  finally show ?case by simp
qed

section \<open>The claims\<close>

subsection \<open>The router finds no rule\<close>

text \<open>
  C1. When the request body parses and the router, called on the request headers with
  the model name written under the model-name header key, returns an error that is the
  no-matching-rule error, \<^verbatim>\<open>ProcessRequestBody\<close> returns with a nil error an immediate
  response of status 404 whose body is the text of the router's error, and the metric
  sink receives the model name and then one completion, a failed one.
\<close>

theorem ProcessRequestBody_no_matching_rule:
  assumes "parseOpenAIChatCompletionBody ext rawBody = Inr (model, body)"
    and "router (config c) ((requestHeaders c)(modelNameHeaderKey (config c) \<mapsto> model)) = Inl e"
    and "errors_Is e (ErrNoMatchingRule ext)"
  shows "fst (ProcessRequestBody ext rawBody c) =
           Return \<lparr>Response = ProcessingResponse_ImmediateResponse
                              \<lparr>Status = 404, Body_ir = Error e\<rparr>,
                   ModeOverride = None, DynamicMetadata = None\<rparr>
         \<and> metrics (snd (ProcessRequestBody ext rawBody c)) =
             metrics c @ [SetModel model, RecordRequestCompletion False]"
  using assms
  by (simp add: ProcessRequestBody_def ProcessRequestBody_body_def defer_record_failure_def
      StatusCode_NotFound_def)

theorem ProcessRequestBody_no_matching_rule_witness:
  "fst (ProcessRequestBody ex_ext \<lparr>Body = ''-unknown-model'', EndOfStream = True\<rparr> ex_processor) =
     Return \<lparr>Response = ProcessingResponse_ImmediateResponse
                        \<lparr>Status = 404, Body_ir = ''no matching rule found''\<rparr>,
             ModeOverride = None, DynamicMetadata = None\<rparr>
   \<and> metrics (snd (ProcessRequestBody ex_ext \<lparr>Body = ''-unknown-model'', EndOfStream = True\<rparr>
        ex_processor)) = [SetModel ''unknown-model'', RecordRequestCompletion False]"
  using ProcessRequestBody_no_matching_rule [of ex_ext
      "\<lparr>Body = ''-unknown-model'', EndOfStream = True\<rparr>" "''unknown-model''"
      "\<lparr>Model = ''unknown-model'', Stream = False, Rest = []\<rparr>" ex_processor
      "errorString 1 ''no matching rule found''"]
  by (simp add: parseOpenAIChatCompletionBody_def ex_ext_def ex_processor_def ex_config_def)

subsection \<open>The reply to a routed request\<close>

text \<open>
  C6, as amended. The header mutation of the reply passes through the auth handler
  registered for the backend, which may change it. Provided every registered auth
  handler keeps the set-headers it is handed (as holds when none is registered): when
  the request body parses, the router returns a backend and \<^verbatim>\<open>ProcessRequestBody\<close>
  returns a reply, the reply is a request-body response with \<^verbatim>\<open>clear_route_cache\<close>
  set, and the set-headers of its header mutation hold the model-name header with the
  parsed model and the selected-backend header with the name of the backend the router
  chose, or with \<^verbatim>\<open>original_destination_cluster\<close> when that backend has dynamic load
  balancing.
\<close>

theorem ProcessRequestBody_routed_reply:
  assumes parse: "parseOpenAIChatCompletionBody ext rawBody = Inr (model, req)"
    and route: "router (config c) ((requestHeaders c)(modelNameHeaderKey (config c) \<mapsto> model)) = Inr b"
    and ret: "fst (ProcessRequestBody ext rawBody c) = Return reply"
    and auth: "\<And>name h rh hm bm. backendAuthHandlers (config c) name = Some h \<Longrightarrow>
                 set (SetHeaders hm) \<subseteq> set (SetHeaders (fst (snd (snd (h rh hm bm)))))"
  shows "\<exists>cr hm. Response reply = ProcessingResponse_RequestBody (BodyResponse (Some cr))
           \<and> ClearRouteCache cr
           \<and> HeaderMutation_cr cr = Some hm
           \<and> \<lparr>Header = \<lparr>Key = modelNameHeaderKey (config c), RawValue = model\<rparr>\<rparr>
                \<in> set (SetHeaders hm)
           \<and> \<lparr>Header = \<lparr>Key = selectedBackendHeaderKey (config c),
                          RawValue = (if DynamicLoadBalancing b = None then Name b
                                      else ''original_destination_cluster'')\<rparr>\<rparr>
                \<in> set (SetHeaders hm)"
proof -
  let ?v = "if DynamicLoadBalancing b = None then Name b else ''original_destination_cluster''"
  from ProcessRequestBody_routedE [OF parse route ret] obtain b' headers c2 where
    cfg: "config c2 = config c" and
    eq: "ProcessRequestBody ext rawBody c = ProcessRequestBody_selected ext model req b' headers ?v c2"
    by metis
  from ret eq have "fst (ProcessRequestBody_selected ext model req b' headers ?v c2) = Return reply"
    by simp
  then obtain hm2 bm cr where
    m1: "\<lparr>Header = \<lparr>Key = modelNameHeaderKey (config c2), RawValue = model\<rparr>\<rparr> \<in> set (SetHeaders hm2)" and
    m2: "\<lparr>Header = \<lparr>Key = selectedBackendHeaderKey (config c2), RawValue = ?v\<rparr>\<rparr> \<in> set (SetHeaders hm2)" and
    r: "Response reply = ProcessingResponse_RequestBody (BodyResponse (Some cr))" and
    crc: "ClearRouteCache cr" and
    hm: "(backendAuthHandlers (config c2) (Name b') = None \<and> HeaderMutation_cr cr = Some hm2)
         \<or> (\<exists>h. backendAuthHandlers (config c2) (Name b') = Some h
               \<and> HeaderMutation_cr cr = Some (fst (snd (snd (h (requestHeaders c2) hm2 bm)))))"
    by (rule ProcessRequestBody_selected_ReturnE)
  from hm show ?thesis
  proof
    assume "backendAuthHandlers (config c2) (Name b') = None \<and> HeaderMutation_cr cr = Some hm2"
    with m1 m2 r crc cfg show ?thesis by auto
  next
    assume "\<exists>h. backendAuthHandlers (config c2) (Name b') = Some h
               \<and> HeaderMutation_cr cr = Some (fst (snd (snd (h (requestHeaders c2) hm2 bm))))"
    then obtain h where h: "backendAuthHandlers (config c) (Name b') = Some h" and
      hm3: "HeaderMutation_cr cr = Some (fst (snd (snd (h (requestHeaders c2) hm2 bm))))"
      using cfg by auto
    from auth [OF h, of hm2 "requestHeaders c2" bm] m1 m2 cfg have
      "\<lparr>Header = \<lparr>Key = modelNameHeaderKey (config c), RawValue = model\<rparr>\<rparr>
         \<in> set (SetHeaders (fst (snd (snd (h (requestHeaders c2) hm2 bm)))))"
      "\<lparr>Header = \<lparr>Key = selectedBackendHeaderKey (config c), RawValue = ?v\<rparr>\<rparr>
         \<in> set (SetHeaders (fst (snd (snd (h (requestHeaders c2) hm2 bm)))))"
      by auto
    with r crc hm3 show ?thesis by blast
  qed
qed

theorem ProcessRequestBody_routed_reply_witness:
  "fst (ProcessRequestBody ex_ext ex_request ex_processor_auth) = Return ex_routed_reply
   \<and> (\<exists>cr hm. Response ex_routed_reply = ProcessingResponse_RequestBody (BodyResponse (Some cr))
         \<and> ClearRouteCache cr \<and> HeaderMutation_cr cr = Some hm
         \<and> \<lparr>Header = \<lparr>Key = ''x-ai-eg-model'', RawValue = ''gpt-4o-mini''\<rparr>\<rparr> \<in> set (SetHeaders hm)
         \<and> \<lparr>Header = \<lparr>Key = ''x-ai-eg-selected-backend'', RawValue = ''openai''\<rparr>\<rparr>
              \<in> set (SetHeaders hm))"
proof -
  have parse: "parseOpenAIChatCompletionBody ex_ext ex_request =
      Inr (''gpt-4o-mini'', \<lparr>Model = ''gpt-4o-mini'', Stream = True, Rest = []\<rparr>)"
    by (simp add: parseOpenAIChatCompletionBody_def ex_ext_def ex_request_def)
  have route: "router (config ex_processor_auth)
      ((requestHeaders ex_processor_auth)
         (modelNameHeaderKey (config ex_processor_auth) \<mapsto> ''gpt-4o-mini'')) =
      Inr \<lparr>Name = ''openai'', Schema = \<lparr>Name_schema = APISchemaOpenAI, Version = ''v1''\<rparr>,
           DynamicLoadBalancing = None\<rparr>"
    by (simp add: ex_processor_auth_def ex_processor_def ex_config_def)
  have ret: "fst (ProcessRequestBody ex_ext ex_request ex_processor_auth) = Return ex_routed_reply"
    by (simp add: ProcessRequestBody_def defer_record_failure_def ProcessRequestBody_body_def
        ProcessRequestBody_selected_def selectTranslator_def parseOpenAIChatCompletionBody_def
        ex_processor_auth_def ex_processor_def ex_config_def ex_ext_def ex_translator_def
        ex_auth_def ex_request_def ex_routed_reply_def)
  have auth: "set (SetHeaders hm) \<subseteq> set (SetHeaders (fst (snd (snd (h rh hm bm)))))"
    if "backendAuthHandlers (config ex_processor_auth) name = Some h" for name h rh hm bm
    using that
    by (auto simp: ex_processor_auth_def ex_processor_def ex_auth_def split: if_splits)
  have "\<exists>cr hm. Response ex_routed_reply = ProcessingResponse_RequestBody (BodyResponse (Some cr))
         \<and> ClearRouteCache cr \<and> HeaderMutation_cr cr = Some hm
         \<and> \<lparr>Header = \<lparr>Key = modelNameHeaderKey (config ex_processor_auth),
                         RawValue = ''gpt-4o-mini''\<rparr>\<rparr> \<in> set (SetHeaders hm)
         \<and> \<lparr>Header = \<lparr>Key = selectedBackendHeaderKey (config ex_processor_auth),
                         RawValue = ''openai''\<rparr>\<rparr> \<in> set (SetHeaders hm)"
    using ProcessRequestBody_routed_reply [OF parse route ret] auth
    by simp
  with ret show ?thesis
    by (simp add: ex_processor_auth_def ex_processor_def ex_config_def)
qed

text \<open>
  C6 as it is worded holds of every request that routes successfully. With an auth
  handler that replaces the set-headers by its own, the reply to a routed request sets
  neither the model-name header nor the selected-backend header.
\<close>

theorem ProcessRequestBody_rewriting_handler_counterexample:
  "fst (ProcessRequestBody ex_ext ex_request ex_processor_rewriting) =
     Return \<lparr>Response = ProcessingResponse_RequestBody (BodyResponse (Some
                \<lparr>HeaderMutation_cr = Some
                   \<lparr>SetHeaders =
                      [\<lparr>Header = \<lparr>Key = ''authorization'', RawValue = ''Bearer key''\<rparr>\<rparr>],
                    RemoveHeaders = []\<rparr>,
                 BodyMutation_cr = None, ClearRouteCache = True\<rparr>)),
             ModeOverride = None, DynamicMetadata = None\<rparr>"
  by (simp add: ProcessRequestBody_def defer_record_failure_def ProcessRequestBody_body_def
      ProcessRequestBody_selected_def selectTranslator_def parseOpenAIChatCompletionBody_def
      ex_processor_rewriting_def ex_processor_def ex_config_def ex_ext_def ex_translator_def
      ex_rewriting_auth_def ex_request_def)

subsection \<open>Accumulated token usage\<close>

text \<open>
  C3, as amended. The token counts are uint32 and are added with wrap-around. For each
  of the three fields \<open>f\<close>, after any sequence of \<^verbatim>\<open>ProcessResponseBody\<close> calls on
  a processor \<open>c\<close> the accumulated count is the count of \<open>c\<close> plus the sum of
  the deltas the translator returned for these events, modulo \<open>2 ^ 32\<close>. When that
  sum stays below \<open>2 ^ 32\<close>, it is the exact sum and the count has not decreased.
  The processor \<open>c\<close> is arbitrary, so this holds from the initial all-zero counts and
  between any two calls of a stream.
\<close>

theorem token_usage_accumulates:
  assumes "f = InputTokens \<or> f = OutputTokens \<or> f = TotalTokens"
  shows "unat (f (costs (snd (ProcessResponseBody_stream ext bodies c)))) =
           (unat (f (costs c)) + sum_list (map (\<lambda>d. unat (f d)) (stream_deltas ext bodies c)))
             mod 2 ^ 32
       \<and> (unat (f (costs c)) + sum_list (map (\<lambda>d. unat (f d)) (stream_deltas ext bodies c))
             < 2 ^ 32 \<longrightarrow>
            unat (f (costs (snd (ProcessResponseBody_stream ext bodies c)))) =
              unat (f (costs c)) + sum_list (map (\<lambda>d. unat (f d)) (stream_deltas ext bodies c))
            \<and> f (costs c) \<le> f (costs (snd (ProcessResponseBody_stream ext bodies c))))"
proof -
  let ?ds = "stream_deltas ext bodies c"
  let ?c' = "snd (ProcessResponseBody_stream ext bodies c)"
  let ?n = "unat (f (costs c)) + sum_list (map (\<lambda>d. unat (f d)) ?ds)"
  have "f (costs ?c') = f (costs c) + sum_list (map f ?ds)"
    by (simp add: ProcessResponseBody_stream_costs foldl_add_usage_field [OF assms])
  then have "unat (f (costs ?c')) = (unat (f (costs c)) + unat (sum_list (map f ?ds))) mod 2 ^ 32"
    by (simp add: unat_word_ariths)
  also have "\<dots> = (unat (f (costs c)) + sum_list (map unat (map f ?ds)) mod 2 ^ 32) mod 2 ^ 32"
    by (simp add: unat_sum_list)
  also have "\<dots> = ?n mod 2 ^ 32"
    by (simp add: mod_add_right_eq comp_def)
  finally have m: "unat (f (costs ?c')) = ?n mod 2 ^ 32" .
  have "unat (f (costs ?c')) = ?n \<and> f (costs c) \<le> f (costs ?c')" if "?n < 2 ^ 32"
  proof -
    from m that have e: "unat (f (costs ?c')) = ?n" by simp
    then have "unat (f (costs c)) \<le> unat (f (costs ?c'))" by simp
    then have "f (costs c) \<le> f (costs ?c')" by (simp add: word_le_nat_alt)
    with e show ?thesis by simp
  qed
  with m show ?thesis by blast
qed

theorem token_usage_accumulates_witness:
  "unat (InputTokens (costs (snd (ProcessResponseBody_stream ex_ext [ex_chunk, ex_final] ex_routed)))) =
     20
   \<and> InputTokens (costs ex_routed)
       \<le> InputTokens (costs (snd (ProcessResponseBody_stream ex_ext [ex_chunk, ex_final] ex_routed)))"
proof -
  have s: "sum_list (map (\<lambda>d. unat (InputTokens d))
          (stream_deltas ex_ext [ex_chunk, ex_final] ex_routed)) = 20"
    by (simp add: ProcessResponseBody_def ProcessResponseBody_body_def usage_delta_def
      ex_routed_def ex_processor_def ex_translator_def ex_chunk_def ex_final_def add_usage_def)
  have z: "unat (InputTokens (costs ex_routed)) = 0"
    by (simp add: ex_routed_def ex_processor_def)
  from token_usage_accumulates [of InputTokens ex_ext "[ex_chunk, ex_final]" ex_routed] s z
  show ?thesis by simp
qed

text \<open>
  C3 as it is worded has the counts never decrease and equal the sum of the deltas. Two
  successful events whose deltas report \<open>2 ^ 31\<close> input tokens each leave an
  accumulated input count of 0, below the \<open>2 ^ 31\<close> reached after the first event
  and not the sum \<open>2 ^ 32\<close>.
\<close>

theorem token_usage_wraps_counterexample:
  "map is_Return (fst (ProcessResponseBody_stream ex_ext [ex_chunk, ex_chunk] ex_huge)) =
     [True, True]
   \<and> map InputTokens (stream_deltas ex_ext [ex_chunk, ex_chunk] ex_huge) =
       [2147483648, 2147483648]
   \<and> InputTokens (costs (snd (ProcessResponseBody_stream ex_ext [ex_chunk] ex_huge))) =
       2147483648
   \<and> InputTokens (costs (snd (ProcessResponseBody_stream ex_ext [ex_chunk, ex_chunk] ex_huge))) =
       0"
  by (simp add: ProcessResponseBody_def ProcessResponseBody_body_def usage_delta_def
      ex_huge_def ex_huge_translator_def ex_routed_def ex_processor_def ex_translator_def
      ex_chunk_def add_usage_def)

subsection \<open>Dynamic metadata\<close>

text \<open>
  C2, as amended. For every response-body event: dynamic metadata is attached to the
  reply if and only if the event reaches the translator and is translated (the body
  decodes, a translator is bound and its translation succeeds, which is when
  \<open>usage_delta\<close> gives a delta), the event has \<^verbatim>\<open>end_of_stream\<close>, at least one
  cost rule is configured and the cost computation on the accumulated processor
  succeeds. When attached, it is one struct with the one key \<open>metadataNamespace\<close>,
  whose value is a non-empty struct mapping each cost rule's metadata key to its value.
\<close>

theorem ProcessResponseBody_dynamic_metadata:
  "(\<exists>reply md. fst (ProcessResponseBody ext body c) = Return reply
       \<and> DynamicMetadata reply = Some md)
     = (usage_delta ext body c \<noteq> None \<and> EndOfStream body \<and> requestCosts (config c) \<noteq> []
         \<and> (\<exists>m. maybeBuildDynamicMetadata (snd (ProcessResponseBody ext body c)) = Inr m))
   \<and> (\<forall>reply md. fst (ProcessResponseBody ext body c) = Return reply
         \<and> DynamicMetadata reply = Some md \<longrightarrow>
        (\<exists>inner. md = [(metadataNamespace (config c), Value_StructValue inner)]
           \<and> inner \<noteq> []
           \<and> map_of inner =
               cost_fields (snd (ProcessResponseBody ext body c)) (requestCosts (config c))))"
proof (cases "usage_delta ext body c")
  case None
  then have "\<not> (\<exists>reply md. fst (ProcessResponseBody ext body c) = Return reply
       \<and> DynamicMetadata reply = Some md)"
    using ProcessResponseBody_untranslated_reply [of ext body c] by auto
  with None show ?thesis by auto
next
  case (Some tu)
  let ?c' = "snd (ProcessResponseBody ext body c)"
  from ProcessResponseBody_translated [OF Some] obtain resp where
    cfg: "config ?c' = config c" and
    none: "DynamicMetadata resp = None" and
    res: "fst (ProcessResponseBody ext body c) =
            (if EndOfStream body \<and> requestCosts (config c) \<noteq> []
             then (case maybeBuildDynamicMetadata ?c' of
                     Inl e \<Rightarrow> Fail (fmt_Errorf_w ''failed to build dynamic metadata: '' e)
                   | Inr md \<Rightarrow> Return (resp\<lparr>DynamicMetadata := md\<rparr>))
             else Return resp)"
    by blast
  show ?thesis
  proof (cases "EndOfStream body \<and> requestCosts (config c) \<noteq> []")
    case False
    with res none show ?thesis by auto
  next
    case True
    show ?thesis
    proof (cases "maybeBuildDynamicMetadata ?c'")
      case (Inl e)
      with True res show ?thesis by simp
    next
      case (Inr m)
      with True maybeBuild_None [of ?c'] cfg obtain s where s: "m = Some s"
        by (cases m) auto
      from maybeBuild_Some [of ?c' s] Inr s cfg obtain inner where
        "s = [(metadataNamespace (config c), Value_StructValue inner)]" "inner \<noteq> []"
        "map_of inner = cost_fields ?c' (requestCosts (config c))"
        by auto
      with True res Inr s Some show ?thesis by simp
    qed
  qed
qed

theorem ProcessResponseBody_dynamic_metadata_witness:
  "fst (ProcessResponseBody ex_ext ex_final ex_routed) =
     Return \<lparr>Response = ProcessingResponse_ResponseBody (Some (BodyResponse (Some
                \<lparr>HeaderMutation_cr = None, BodyMutation_cr = None, ClearRouteCache = False\<rparr>))),
             ModeOverride = None,
             DynamicMetadata = Some [(''io.envoy.ai_gateway'',
               Value_StructValue [(''input'', Value_NumberValue 10),
                                  (''c'', Value_NumberValue 23)])]\<rparr>
   \<and> (usage_delta ex_ext ex_final ex_routed \<noteq> None
       \<and> EndOfStream ex_final \<and> requestCosts (config ex_routed) \<noteq> []
       \<and> (\<exists>m. maybeBuildDynamicMetadata (snd (ProcessResponseBody ex_ext ex_final ex_routed)) = Inr m))"
proof -
  have r: "fst (ProcessResponseBody ex_ext ex_final ex_routed) =
     Return \<lparr>Response = ProcessingResponse_ResponseBody (Some (BodyResponse (Some
                \<lparr>HeaderMutation_cr = None, BodyMutation_cr = None, ClearRouteCache = False\<rparr>))),
             ModeOverride = None,
             DynamicMetadata = Some [(''io.envoy.ai_gateway'',
               Value_StructValue [(''input'', Value_NumberValue 10),
                                  (''c'', Value_NumberValue 23)])]\<rparr>"
    by (simp add: ProcessResponseBody_fst ProcessResponseBody_body_def ex_final_def ex_routed_def
        ex_processor_def ex_translator_def ex_config_def ex_costs_def ex_input_rule_def
        ex_cel_rule_def add_usage_def
        maybeBuildDynamicMetadata_def requestCost_cost_def EvaluateProgram_def hdr_def)
  from ProcessResponseBody_dynamic_metadata [of ex_ext ex_final ex_routed] r show ?thesis
    by auto
qed

text \<open>
  C2 as it is worded speaks of every response-body event. With no translator bound the
  reply is the empty body response: on a final event, with two cost rules configured
  and a cost computation that succeeds, nothing is attached.
\<close>

theorem ProcessResponseBody_nil_translator_counterexample:
  "EndOfStream ex_final \<and> requestCosts (config ex_processor) \<noteq> []
   \<and> maybeBuildDynamicMetadata (snd (ProcessResponseBody ex_ext ex_final ex_processor)) =
       Inr (Some [(''io.envoy.ai_gateway'',
               Value_StructValue [(''input'', Value_NumberValue 0),
                                  (''c'', Value_NumberValue 0)])])
   \<and> fst (ProcessResponseBody ex_ext ex_final ex_processor) =
       Return \<lparr>Response = ProcessingResponse_ResponseBody None, ModeOverride = None,
               DynamicMetadata = None\<rparr>"
  by (simp add: ProcessResponseBody_def ProcessResponseBody_body_def ex_final_def
        ex_processor_def ex_config_def ex_costs_def ex_input_rule_def ex_cel_rule_def
        maybeBuildDynamicMetadata_def requestCost_cost_def EvaluateProgram_def hdr_def)

subsection \<open>Expression cost rules\<close>

text \<open>
  C8. On a final response-body event that is translated and answered with a reply,
  every expression (CEL) cost rule has been evaluated by \<open>EvaluateProgram\<close> on its
  program, the model name and the backend name read from the processor's request
  headers under the configured model-name and selected-backend header keys, and the
  accumulated input, output and total token counts (the counts before the event plus
  the event's delta): that evaluation gave a value, and the number written under the
  rule's metadata key (for the last rule with that key) is that value converted to
  uint32.
\<close>

theorem CEL_rule_arguments:
  assumes ud: "usage_delta ext body c = Some tu"
    and eos: "EndOfStream body"
    and ret: "fst (ProcessResponseBody ext body c) = Return reply"
    and rc: "rc \<in> set (requestCosts (config c))"
    and cel: "Type rc = LLMRequestCostTypeCEL"
  shows "\<exists>v. EvaluateProgram (celProg rc)
                (hdr (requestHeaders c) (modelNameHeaderKey (config c)))
                (hdr (requestHeaders c) (selectedBackendHeaderKey (config c)))
                (InputTokens (costs c) + InputTokens tu)
                (OutputTokens (costs c) + OutputTokens tu)
                (TotalTokens (costs c) + TotalTokens tu) = Inr v
           \<and> (last_rule (requestCosts (config c)) (MetadataKey rc) = Some rc \<longrightarrow>
                (\<exists>inner. DynamicMetadata reply =
                            Some [(metadataNamespace (config c), Value_StructValue inner)]
                   \<and> map_of inner (MetadataKey rc) =
                       Some (Value_NumberValue (unat (ucast v :: uint32)))))"
proof -
  let ?c' = "snd (ProcessResponseBody ext body c)"
  from ProcessResponseBody_translated [OF ud] have
    st: "config ?c' = config c" "requestHeaders ?c' = requestHeaders c"
      "costs ?c' = add_usage (costs c) tu"
    by auto
  from final_event_rule_value [OF ud eos ret rc] obtain cost where
    cost: "requestCost_cost ?c' rc = Inr cost" and
    val: "last_rule (requestCosts (config c)) (MetadataKey rc) = Some rc \<longrightarrow>
            (\<exists>inner. DynamicMetadata reply =
                        Some [(metadataNamespace (config c), Value_StructValue inner)]
               \<and> map_of inner (MetadataKey rc) = Some (Value_NumberValue (unat cost)))"
    by blast
  from cost obtain v where
    v: "EvaluateProgram (celProg rc)
          (hdr (requestHeaders c) (modelNameHeaderKey (config c)))
          (hdr (requestHeaders c) (selectedBackendHeaderKey (config c)))
          (InputTokens (costs c) + InputTokens tu)
          (OutputTokens (costs c) + OutputTokens tu)
          (TotalTokens (costs c) + TotalTokens tu) = Inr v" and
    c: "cost = ucast v"
    by (auto simp: requestCost_cost_CEL [OF cel] st add_usage_def split: sum.splits)
  from v c val show ?thesis by blast
qed

theorem CEL_rule_arguments_witness:
  "\<exists>v. EvaluateProgram (celProg ex_cel_rule) ''gpt-4o-mini'' [] 10 3 13 = Inr v
     \<and> (\<exists>inner. DynamicMetadata
            \<lparr>Response = ProcessingResponse_ResponseBody (Some (BodyResponse (Some
                \<lparr>HeaderMutation_cr = None, BodyMutation_cr = None, ClearRouteCache = False\<rparr>))),
             ModeOverride = None,
             DynamicMetadata = Some [(''io.envoy.ai_gateway'',
               Value_StructValue [(''input'', Value_NumberValue 10),
                                  (''c'', Value_NumberValue 23)])]\<rparr> =
          Some [(''io.envoy.ai_gateway'', Value_StructValue inner)]
        \<and> map_of inner ''c'' = Some (Value_NumberValue (unat (ucast v :: uint32))))"
proof -
  let ?c = "ex_with_costs ex_costs"
  have eos: "EndOfStream ex_final" by (simp add: ex_final_def)
  have ret: "fst (ProcessResponseBody ex_ext ex_final ?c) =
     Return \<lparr>Response = ProcessingResponse_ResponseBody (Some (BodyResponse (Some
                \<lparr>HeaderMutation_cr = None, BodyMutation_cr = None, ClearRouteCache = False\<rparr>))),
             ModeOverride = None,
             DynamicMetadata = Some [(''io.envoy.ai_gateway'',
               Value_StructValue [(''input'', Value_NumberValue 10),
                                  (''c'', Value_NumberValue 23)])]\<rparr>"
    by (simp add: ProcessResponseBody_fst ProcessResponseBody_body_def ex_final_def
        ex_with_costs_def ex_routed_def
        ex_processor_def ex_translator_def ex_config_def ex_costs_def ex_input_rule_def
        ex_cel_rule_def add_usage_def
        maybeBuildDynamicMetadata_def requestCost_cost_def EvaluateProgram_def hdr_def)
  have rc: "ex_cel_rule \<in> set (requestCosts (config ?c))"
    by (simp add: ex_with_costs_def ex_costs_def)
  have cel: "Type ex_cel_rule = LLMRequestCostTypeCEL" by (simp add: ex_cel_rule_def)
  have last: "last_rule (requestCosts (config ?c)) (MetadataKey ex_cel_rule) = Some ex_cel_rule"
    by (simp add: ex_with_costs_def ex_costs_def ex_cel_rule_def)
  from CEL_rule_arguments [OF ex_final_delta eos ret rc cel] last show ?thesis
    by (simp add: ex_with_costs_def ex_routed_def ex_processor_def ex_config_def hdr_def
        ex_cel_rule_def)
qed

text \<open>
  C5, as amended. The value of an expression cost rule is converted to uint32 by
  truncation: the number written into the dynamic metadata is the evaluator's 64-bit
  result modulo \<open>2 ^ 32\<close>. Nothing is clamped.
\<close>

theorem CEL_cost_truncated:
  assumes ud: "usage_delta ext body c = Some tu"
    and eos: "EndOfStream body"
    and ret: "fst (ProcessResponseBody ext body c) = Return reply"
    and cel: "Type rc = LLMRequestCostTypeCEL"
    and last: "last_rule (requestCosts (config c)) (MetadataKey rc) = Some rc"
    and v: "EvaluateProgram (celProg rc)
              (hdr (requestHeaders c) (modelNameHeaderKey (config c)))
              (hdr (requestHeaders c) (selectedBackendHeaderKey (config c)))
              (InputTokens (costs c) + InputTokens tu)
              (OutputTokens (costs c) + OutputTokens tu)
              (TotalTokens (costs c) + TotalTokens tu) = Inr v"
  shows "\<exists>inner. DynamicMetadata reply =
                    Some [(metadataNamespace (config c), Value_StructValue inner)]
           \<and> map_of inner (MetadataKey rc) = Some (Value_NumberValue (unat v mod 2 ^ 32))"
proof -
  let ?c' = "snd (ProcessResponseBody ext body c)"
  from ProcessResponseBody_translated [OF ud] have
    st: "config ?c' = config c" "requestHeaders ?c' = requestHeaders c"
      "costs ?c' = add_usage (costs c) tu"
    by auto
  from last have rc: "rc \<in> set (requestCosts (config c))"
    by (simp add: last_rule_Some)
  have "requestCost_cost ?c' rc = Inr (ucast v)"
    using v by (simp add: requestCost_cost_CEL [OF cel] st add_usage_def)
  with final_event_rule_value [OF ud eos ret rc] last obtain inner where
    "DynamicMetadata reply = Some [(metadataNamespace (config c), Value_StructValue inner)]"
    "map_of inner (MetadataKey rc) = Some (Value_NumberValue (unat (ucast v :: uint32)))"
    by auto
  then show ?thesis by (auto simp: unsigned_ucast_eq take_bit_eq_mod)
qed

theorem CEL_cost_truncated_witness:
  "\<exists>inner. DynamicMetadata
            \<lparr>Response = ProcessingResponse_ResponseBody (Some (BodyResponse (Some
                \<lparr>HeaderMutation_cr = None, BodyMutation_cr = None, ClearRouteCache = False\<rparr>))),
             ModeOverride = None,
             DynamicMetadata = Some [(''io.envoy.ai_gateway'',
               Value_StructValue [(''c'', Value_NumberValue 4)])]\<rparr> =
          Some [(''io.envoy.ai_gateway'', Value_StructValue inner)]
        \<and> map_of inner ''c'' = Some (Value_NumberValue (4294967300 mod 2 ^ 32))"
proof -
  let ?c = "ex_with_costs [ex_overflowing_rule]"
  have eos: "EndOfStream ex_final" by (simp add: ex_final_def)
  have ret: "fst (ProcessResponseBody ex_ext ex_final ?c) =
       Return \<lparr>Response = ProcessingResponse_ResponseBody (Some (BodyResponse (Some
                  \<lparr>HeaderMutation_cr = None, BodyMutation_cr = None, ClearRouteCache = False\<rparr>))),
               ModeOverride = None,
               DynamicMetadata = Some [(''io.envoy.ai_gateway'',
                 Value_StructValue [(''c'', Value_NumberValue 4)])]\<rparr>"
    by (simp add: ProcessResponseBody_fst ProcessResponseBody_body_def ex_final_def
        ex_with_costs_def ex_routed_def
        ex_processor_def ex_translator_def ex_config_def ex_overflowing_rule_def add_usage_def
        maybeBuildDynamicMetadata_def requestCost_cost_def EvaluateProgram_def hdr_def)
  have cel: "Type ex_overflowing_rule = LLMRequestCostTypeCEL"
    by (simp add: ex_overflowing_rule_def)
  have last: "last_rule (requestCosts (config ?c)) (MetadataKey ex_overflowing_rule) =
      Some ex_overflowing_rule"
    by (simp add: ex_with_costs_def)
  have v: "EvaluateProgram (celProg ex_overflowing_rule)
              (hdr (requestHeaders ?c) (modelNameHeaderKey (config ?c)))
              (hdr (requestHeaders ?c) (selectedBackendHeaderKey (config ?c)))
              (InputTokens (costs ?c) + InputTokens \<lparr>InputTokens = 10, OutputTokens = 3, TotalTokens = 13\<rparr>)
              (OutputTokens (costs ?c) + OutputTokens \<lparr>InputTokens = 10, OutputTokens = 3, TotalTokens = 13\<rparr>)
              (TotalTokens (costs ?c) + TotalTokens \<lparr>InputTokens = 10, OutputTokens = 3, TotalTokens = 13\<rparr>) =
            Inr 4294967300"
    by (simp add: EvaluateProgram_def ex_overflowing_rule_def ex_with_costs_def ex_routed_def
        ex_processor_def)
  from CEL_cost_truncated [OF ex_final_delta eos ret cel last v] show ?thesis
    by (simp add: ex_with_costs_def ex_routed_def ex_processor_def ex_config_def
        ex_overflowing_rule_def)
qed

text \<open>
  C5 as it is worded has the value clamped to the largest uint32. A rule that
  multiplies the input tokens by 429496730 evaluates to 4294967300 on 10 input tokens;
  the metadata holds 4, not 4294967295.
\<close>

theorem CEL_cost_overflow_counterexample:
  "EvaluateProgram (celProg ex_overflowing_rule) ''gpt-4o-mini'' [] 10 3 13 = Inr 4294967300
   \<and> fst (ProcessResponseBody ex_ext ex_final (ex_with_costs [ex_overflowing_rule])) =
       Return \<lparr>Response = ProcessingResponse_ResponseBody (Some (BodyResponse (Some
                  \<lparr>HeaderMutation_cr = None, BodyMutation_cr = None, ClearRouteCache = False\<rparr>))),
               ModeOverride = None,
               DynamicMetadata = Some [(''io.envoy.ai_gateway'',
                 Value_StructValue [(''c'', Value_NumberValue 4)])]\<rparr>"
  by (simp add: ProcessResponseBody_fst ProcessResponseBody_body_def ex_final_def
        ex_with_costs_def ex_routed_def
        ex_processor_def ex_translator_def ex_config_def ex_overflowing_rule_def add_usage_def
        maybeBuildDynamicMetadata_def requestCost_cost_def EvaluateProgram_def hdr_def)

text \<open>
  C4, as amended. When the evaluation of an expression cost rule fails on a final
  response-body event that was translated, the cost computation fails:
  \<^verbatim>\<open>ProcessResponseBody\<close> returns no reply but an error, and the completion it records
  is a failed one. When every cost rule before the failing one gives a value, the
  error returned is the evaluator's error wrapped twice, as
  \<^verbatim>\<open>failed to build dynamic metadata: failed to evaluate CEL expression: ...\<close>.
\<close>

theorem CEL_failure_fails_the_event:
  assumes ud: "usage_delta ext body c = Some tu"
    and eos: "EndOfStream body"
    and rcs: "requestCosts (config c) = pre @ rc # post"
    and cel: "Type rc = LLMRequestCostTypeCEL"
    and e: "EvaluateProgram (celProg rc)
              (hdr (requestHeaders c) (modelNameHeaderKey (config c)))
              (hdr (requestHeaders c) (selectedBackendHeaderKey (config c)))
              (InputTokens (costs c) + InputTokens tu)
              (OutputTokens (costs c) + OutputTokens tu)
              (TotalTokens (costs c) + TotalTokens tu) = Inl e"
  shows "is_Fail (fst (ProcessResponseBody ext body c))
       \<and> completions (metrics (snd (ProcessResponseBody ext body c))) =
           completions (metrics c) @ [False]
       \<and> ((\<forall>r \<in> set pre. \<exists>cost.
              requestCost_cost (c\<lparr>costs := add_usage (costs c) tu\<rparr>) r = Inr cost) \<longrightarrow>
            fst (ProcessResponseBody ext body c) =
              Fail (fmt_Errorf_w ''failed to build dynamic metadata: ''
                     (fmt_Errorf_w ''failed to evaluate CEL expression: '' e)))"
proof -
  let ?c' = "snd (ProcessResponseBody ext body c)"
  let ?ca = "c\<lparr>costs := add_usage (costs c) tu\<rparr>"
  from rcs have ne: "requestCosts (config c) \<noteq> []" and rc: "rc \<in> set (requestCosts (config c))"
    by simp_all
  from ProcessResponseBody_translated [OF ud] eos ne obtain resp where
    st: "config ?c' = config c" "requestHeaders ?c' = requestHeaders c"
      "costs ?c' = add_usage (costs c) tu" and
    res: "fst (ProcessResponseBody ext body c) =
            (case maybeBuildDynamicMetadata ?c' of
               Inl e \<Rightarrow> Fail (fmt_Errorf_w ''failed to build dynamic metadata: '' e)
             | Inr md \<Rightarrow> Return (resp\<lparr>DynamicMetadata := md\<rparr>))"
    by auto
  have same: "maybeBuildDynamicMetadata ?c' = maybeBuildDynamicMetadata ?ca"
    by (rule maybeBuild_cong) (simp_all add: st)
  have fail: "requestCost_cost ?ca rc =
      Inl (fmt_Errorf_w ''failed to evaluate CEL expression: '' e)"
    using e by (simp add: requestCost_cost_CEL [OF cel] add_usage_def)
  from maybeBuild_fails [of rc ?ca] rc fail obtain e' where
    e': "maybeBuildDynamicMetadata ?ca = Inl e'"
    by auto
  with res same have f: "fst (ProcessResponseBody ext body c) =
      Fail (fmt_Errorf_w ''failed to build dynamic metadata: '' e')"
    by simp
  then have a: "is_Fail (fst (ProcessResponseBody ext body c))" by simp
  from f ProcessResponseBody_one_completion [of ext body c] have
    b: "completions (metrics ?c') = completions (metrics c) @ [False]"
    by simp
  have "fst (ProcessResponseBody ext body c) =
      Fail (fmt_Errorf_w ''failed to build dynamic metadata: ''
             (fmt_Errorf_w ''failed to evaluate CEL expression: '' e))"
    if "\<forall>r \<in> set pre. \<exists>cost. requestCost_cost ?ca r = Inr cost"
  proof -
    from loop_first_failure [OF that fail, of post "[]"] rcs have
      "maybeBuildDynamicMetadata ?ca =
         Inl (fmt_Errorf_w ''failed to evaluate CEL expression: '' e)"
      by (simp add: maybeBuildDynamicMetadata_def)
    with res same show ?thesis by simp
  qed
  with a b show ?thesis by blast
qed

theorem CEL_failure_fails_the_event_witness:
  "fst (ProcessResponseBody ex_ext ex_final
          (ex_with_costs [ex_input_rule, ex_failing_rule])) =
     Fail (fmt_Errorf_w ''failed to build dynamic metadata: ''
            (fmt_Errorf_w ''failed to evaluate CEL expression: ''
               (errorString 3 ''division by zero'')))
   \<and> completions (metrics (snd (ProcessResponseBody ex_ext ex_final
          (ex_with_costs [ex_input_rule, ex_failing_rule])))) = [False]"
proof -
  let ?c = "ex_with_costs [ex_input_rule, ex_failing_rule]"
  let ?tu = "\<lparr>InputTokens = 10, OutputTokens = 3, TotalTokens = 13\<rparr>"
  have eos: "EndOfStream ex_final" by (simp add: ex_final_def)
  have rcs: "requestCosts (config ?c) = [ex_input_rule] @ ex_failing_rule # []"
    by (simp add: ex_with_costs_def)
  have cel: "Type ex_failing_rule = LLMRequestCostTypeCEL"
    by (simp add: ex_failing_rule_def)
  have e: "EvaluateProgram (celProg ex_failing_rule)
              (hdr (requestHeaders ?c) (modelNameHeaderKey (config ?c)))
              (hdr (requestHeaders ?c) (selectedBackendHeaderKey (config ?c)))
              (InputTokens (costs ?c) + InputTokens ?tu)
              (OutputTokens (costs ?c) + OutputTokens ?tu)
              (TotalTokens (costs ?c) + TotalTokens ?tu) =
            Inl (errorString 3 ''division by zero'')"
    by (simp add: EvaluateProgram_def ex_failing_rule_def)
  have pre: "\<forall>r \<in> set [ex_input_rule]. \<exists>cost.
      requestCost_cost (?c\<lparr>costs := add_usage (costs ?c) ?tu\<rparr>) r = Inr cost"
    by (simp add: requestCost_cost_def ex_input_rule_def)
  from CEL_failure_fails_the_event [OF ex_final_delta eos rcs cel e] pre show ?thesis
    by (simp add: ex_with_costs_def ex_routed_def ex_processor_def)
qed

text \<open>
  C4 as it is worded has the failing field left out and the event answered normally.
  With an input-token rule followed by an expression rule whose evaluation fails, the
  event is answered with an error and a failed completion is recorded.
\<close>

theorem CEL_failure_counterexample:
  "fst (ProcessResponseBody ex_ext ex_final (ex_with_costs [ex_input_rule, ex_failing_rule])) =
     Fail (wrapError
       ''failed to build dynamic metadata: failed to evaluate CEL expression: division by zero''
       (wrapError ''failed to evaluate CEL expression: division by zero''
          (errorString 3 ''division by zero'')))
   \<and> completions (metrics (snd (ProcessResponseBody ex_ext ex_final
          (ex_with_costs [ex_input_rule, ex_failing_rule])))) = [False]"
  by (simp add: ProcessResponseBody_def ProcessResponseBody_body_def ex_final_def
        ex_with_costs_def ex_routed_def
        ex_processor_def ex_translator_def ex_config_def ex_failing_rule_def ex_input_rule_def
        add_usage_def fmt_Errorf_w_def
        maybeBuildDynamicMetadata_def requestCost_cost_def EvaluateProgram_def hdr_def)

subsection \<open>Panics\<close>

text \<open>
  C9, as amended. With the configuration and the collaborators present and every call
  on a collaborator returning: \<^verbatim>\<open>ProcessRequestHeaders\<close> and
  \<^verbatim>\<open>ProcessResponseHeaders\<close> always return a response or an error;
  \<^verbatim>\<open>ProcessResponseBody\<close> panics exactly when its message is nil;
  \<^verbatim>\<open>ProcessRequestBody\<close> panics exactly when its message is nil, or the body parses
  and the request-header map is nil, or the body parses, the router returns a backend
  with a dynamic-load-balancing reference, and the configuration's map of dynamic load
  balancers has no entry for that reference. In particular the translator is never
  called while it is nil.
\<close>

theorem processor_panics_exactly:
  "\<not> is_Panic (fst (ProcessRequestHeaders c))
   \<and> \<not> is_Panic (fst (ProcessResponseHeaders ext headers c))
   \<and> is_Panic (fst (ProcessResponseBody_nil ext body c)) = (body = None)
   \<and> is_Panic (fst (ProcessRequestBody_nil ext rawBody nilHeaders c)) =
       (rawBody = None
        \<or> (\<exists>rb model req.
              rawBody = Some rb
              \<and> parseOpenAIChatCompletionBody ext rb = Inr (model, req)
              \<and> (nilHeaders
                  \<or> (\<exists>b p.
                        router (config c)
                          ((requestHeaders c)(modelNameHeaderKey (config c) \<mapsto> model)) = Inr b
                        \<and> DynamicLoadBalancing b = Some p
                        \<and> dynamicLoadBalancers (config c) p = None))))"
proof -
  have h: "\<not> is_Panic (fst (ProcessRequestHeaders c))"
    by (simp add: ProcessRequestHeaders_def)
  have rh: "\<not> is_Panic (fst (ProcessResponseHeaders ext headers c))"
    by (simp add: ProcessResponseHeaders_def defer_record_failure_fst
        ProcessResponseHeaders_body_def Let_def split: option.splits prod.splits sum.splits)
  have rb: "is_Panic (fst (ProcessResponseBody_nil ext body c)) = (body = None)"
    by (cases body)
      (simp_all add: ProcessResponseBody_nil_def ProcessResponseBody_fst
        ProcessResponseBody_body_no_panic)
  have qb: "is_Panic (fst (ProcessRequestBody_nil ext rawBody nilHeaders c)) =
       (rawBody = None
        \<or> (\<exists>rb model req.
              rawBody = Some rb
              \<and> parseOpenAIChatCompletionBody ext rb = Inr (model, req)
              \<and> (nilHeaders
                  \<or> (\<exists>b p.
                        router (config c)
                          ((requestHeaders c)(modelNameHeaderKey (config c) \<mapsto> model)) = Inr b
                        \<and> DynamicLoadBalancing b = Some p
                        \<and> dynamicLoadBalancers (config c) p = None))))"
  proof (cases rawBody)
    case None
    then show ?thesis by (simp add: ProcessRequestBody_nil_def)
  next
    case (Some rb)
    show ?thesis
    proof (cases "parseOpenAIChatCompletionBody ext rb")
      case (Inl e)
      with Some show ?thesis
        by (simp add: ProcessRequestBody_nil_def ProcessRequestBody_panics_iff)
    next
      case (Inr mr)
      obtain model req where mr: "mr = (model, req)" by (cases mr)
      show ?thesis
      proof (cases nilHeaders)
        case True
        with Some Inr mr show ?thesis by (simp add: ProcessRequestBody_nil_def)
      next
        case False
        with Some Inr mr show ?thesis
          by (simp add: ProcessRequestBody_nil_def ProcessRequestBody_panics_iff)
      qed
    qed
  qed
  from h rh rb qb show ?thesis by blast
qed

theorem processor_panics_exactly_witness:
  "is_Panic (fst (ProcessResponseBody_nil ex_ext None ex_routed))
   \<and> \<not> is_Panic (fst (ProcessResponseBody_nil ex_ext (Some ex_final) ex_routed))
   \<and> is_Panic (fst (ProcessRequestBody_nil ex_ext (Some ex_request) True ex_processor))
   \<and> \<not> is_Panic (fst (ProcessRequestBody_nil ex_ext (Some ex_request) False ex_processor))"
  using processor_panics_exactly [of ex_routed ex_ext "[]" None None False]
    processor_panics_exactly [of ex_routed ex_ext "[]" "Some ex_final" None False]
    processor_panics_exactly [of ex_processor ex_ext "[]" None "Some ex_request" True]
    processor_panics_exactly [of ex_processor ex_ext "[]" None "Some ex_request" False]
  by (simp add: parseOpenAIChatCompletionBody_def ex_ext_def ex_processor_def ex_config_def
      ex_request_def)

text \<open>
  C9 as it is worded includes the routed backend whose load balancer is missing from
  the map. There the method panics.
\<close>

theorem ProcessRequestBody_missing_load_balancer_counterexample:
  "fst (ProcessRequestBody ex_ext \<lparr>Body = ''-llama3-70b'', EndOfStream = True\<rparr> ex_processor) =
     Panic ''BUG: failed to find dynamic load balancer''"
  by (simp add: ProcessRequestBody_def ProcessRequestBody_body_def defer_record_failure_def
      parseOpenAIChatCompletionBody_def ex_ext_def ex_processor_def ex_config_def)

subsection \<open>The mode override on response headers\<close>



subsection \<open>Completions recorded by response bodies\<close>

text \<open>
  C10. Every call of \<^verbatim>\<open>ProcessResponseBody\<close> appends exactly one completion to those
  the metric sink has received, with the success flag true exactly when the call
  returns a reply, which is exactly when it returns no error; so a stream of \<open>n\<close>
  response-body events records \<open>n\<close> completions.
\<close>

theorem ProcessResponseBody_completion_per_call:
  "completions (metrics (snd (ProcessResponseBody ext body c))) =
     completions (metrics c) @ [is_Return (fst (ProcessResponseBody ext body c))]
   \<and> is_Return (fst (ProcessResponseBody ext body c)) =
       (\<not> is_Fail (fst (ProcessResponseBody ext body c)))
   \<and> length (completions (metrics (snd (ProcessResponseBody_stream ext bodies c)))) =
       length (completions (metrics c)) + length bodies"
proof -
  have "\<not> is_Panic (fst (ProcessResponseBody ext body c))"
    by (simp add: ProcessResponseBody_fst ProcessResponseBody_body_no_panic)
  then have "is_Return (fst (ProcessResponseBody ext body c)) =
      (\<not> is_Fail (fst (ProcessResponseBody ext body c)))"
    by (cases "fst (ProcessResponseBody ext body c)") simp_all
  then show ?thesis
    using ProcessResponseBody_one_completion [of ext body c]
      ProcessResponseBody_stream_completions [of ext bodies c]
    by simp
qed

theorem ProcessResponseBody_completion_per_call_witness:
  "length (completions (metrics (snd
      (ProcessResponseBody_stream ex_ext [ex_chunk, ex_chunk, ex_final] ex_routed)))) = 3"
  using ProcessResponseBody_completion_per_call [of ex_ext ex_chunk ex_routed
      "[ex_chunk, ex_chunk, ex_final]"]
  by (simp add: ex_routed_def ex_processor_def)

end
